theory Spec2Isabelle
  imports Main
begin

section \<open>Data model\<close>

text \<open>
  The types of the HCL library that package \<open>hcloverlay\<close> works on, with the fields the
  package reads or writes. Source positions are \<open>hcl.Pos\<close> and \<open>hcl.Range\<close>; the zero
  value of a range is what the overlay code writes as \<open>hcl.Range{}\<close>.
\<close>

record Pos =
  Line :: int
  Column :: int
  Byte :: int

record Range =
  Filename :: string
  Start :: Pos
  End :: Pos

definition zeroPos :: Pos where
  "zeroPos = \<lparr>Line = 0, Column = 0, Byte = 0\<rparr>"

definition zeroRange :: Range where
  "zeroRange = \<lparr>Filename = [], Start = zeroPos, End = zeroPos\<rparr>"

text \<open>
  A \<open>cty.Value\<close> is only ever built here by \<open>cty.StringVal\<close>. An expression is either
  the static literal that \<open>hcl.StaticExpr(val, rng)\<close> builds, or an expression of the
  base document, which this package never inspects (it is kept opaque, with an
  identifying number). \<open>exprValue\<close> is \<open>Expression.Value\<close> on a static expression,
  which returns the stored value; \<open>exprRange\<close> is \<open>Expression.Range\<close> there.
\<close>

datatype Value = StringVal string

datatype Expression = StaticExpr Value Range | SourceExpr nat

fun exprValue :: "Expression \<Rightarrow> Value option" where
  "exprValue (StaticExpr v r) = Some v"
| "exprValue (SourceExpr n) = None"

fun exprRange :: "Expression \<Rightarrow> Range option" where
  "exprRange (StaticExpr v r) = Some r"
| "exprRange (SourceExpr n) = None"

record Attribute =
  attrName :: string
  Expr :: Expression
  attrRange :: Range
  NameRange :: Range

record AttributeSchema =
  Name :: string
  Required :: bool

record BlockHeaderSchema =
  Type :: string
  LabelNames :: "string list"

record BodySchema =
  schemaAttributes :: "AttributeSchema list"
  schemaBlocks :: "BlockHeaderSchema list"

datatype DiagnosticSeverity = DiagError | DiagWarning

record Diagnostic =
  Severity :: DiagnosticSeverity
  Summary :: string
  Detail :: string
  Subject :: "Range option"

text \<open>
  \<open>cliArgOverlay\<close> is the only implementation of the \<open>Overlay\<close> interface in the
  package, so an overlay is a \<open>cliArgOverlay\<close>, and a nil \<open>Overlay\<close> is \<open>None\<close>.
\<close>

record cliArgOverlay =
  fullPath :: string
  steps :: "string list"
  val :: string

text \<open>
  A \<open>hcl.Body\<close> is an interface. Three kinds of body occur: a body of the base
  document (\<open>Native\<close>), given by what its four methods return (decoding is a function of
  the schema alone, each call yielding a fresh content tree); the body of
  \<open>hcl.EmptyBody()\<close>; and the \<open>applyBody\<close> wrapper of this package. Decoded content
  holds blocks, and blocks hold bodies, so the three types are mutually recursive.
  \<open>Attributes\<close> is the Go map from attribute name to attribute.
\<close>

datatype Body =
    Native (nativeContent: "BodySchema \<Rightarrow> BodyContent \<times> Diagnostic list")
           (nativePartialContent: "BodySchema \<Rightarrow> BodyContent \<times> Body \<times> Diagnostic list")
           (nativeJustAttributes: "(string \<rightharpoonup> Attribute) \<times> Diagnostic list")
           (nativeMissingItemRange: Range)
  | EmptyBody
  | applyBody (inner: Body) (overlays: "cliArgOverlay list")
and BodyContent =
    BodyContent (Attributes: "string \<rightharpoonup> Attribute") (Blocks: "Block list")
                (contentMissingItemRange: Range)
and Block =
    Block (blockType: string) (Labels: "string list") (Body: Body)
          (DefRange: Range) (TypeRange: Range) (LabelRanges: "Range list")

text \<open>
  The assignments \<open>content.Attributes[name] = ...\<close>, \<open>block.Body = ...\<close> and
  \<open>content.Blocks = append(content.Blocks, block)\<close> mutate the content in place and
  return the same pointer; here each returns the updated value.
\<close>

definition setAttribute :: "BodyContent \<Rightarrow> string \<Rightarrow> Attribute \<Rightarrow> BodyContent" where
  "setAttribute content name attr =
     BodyContent ((Attributes content)(name \<mapsto> attr)) (Blocks content)
       (contentMissingItemRange content)"

definition setBlocks :: "BodyContent \<Rightarrow> Block list \<Rightarrow> BodyContent" where
  "setBlocks content blocks =
     BodyContent (Attributes content) blocks (contentMissingItemRange content)"

definition setBody :: "Block \<Rightarrow> Body \<Rightarrow> Block" where
  "setBody block body =
     Block (blockType block) (Labels block) body (DefRange block) (TypeRange block)
       (LabelRanges block)"

text \<open>
  A Go index expression out of range panics; \<open>o.steps[0]\<close> is the one place where
  the package can.
\<close>

datatype panic = IndexOutOfRange

section \<open>String helpers of the Go library\<close>

text \<open>
  \<open>strings.IndexByte\<close> and \<open>strings.IndexAny\<close> return -1 when nothing is found;
  \<open>strings.Split\<close> with a one-byte separator; \<open>strings.HasPrefix\<close>.
\<close>

fun IndexByte :: "string \<Rightarrow> char \<Rightarrow> int" where
  "IndexByte [] c = -1"
| "IndexByte (x # xs) c =
     (if x = c then 0 else (let i = IndexByte xs c in if i = -1 then -1 else i + 1))"

fun IndexAny :: "string \<Rightarrow> string \<Rightarrow> int" where
  "IndexAny [] chars = -1"
| "IndexAny (x # xs) chars =
     (if x \<in> set chars then 0
      else (let i = IndexAny xs chars in if i = -1 then -1 else i + 1))"

fun Split :: "string \<Rightarrow> char \<Rightarrow> string list" where
  "Split [] sep = [[]]"
| "Split (x # xs) sep =
     (if x = sep then [] # Split xs sep
      else (case Split xs sep of [] \<Rightarrow> [[x]] | p # ps \<Rightarrow> (x # p) # ps))"

definition HasPrefix :: "string \<Rightarrow> string \<Rightarrow> bool" where
  "HasPrefix s pre = (take (length pre) s = pre)"

text \<open>
  The verb \<open>%q\<close> of \<open>fmt.Sprintf\<close> on a string is \<open>strconv.Quote\<close>: the string in
  double quotes, with the quote and the backslash escaped, the control characters
  written as escapes, and printable characters as they are. The model is exact on
  ASCII. A byte from 0x80 on is kept as it is, which is what Go does for the UTF-8
  encoding of a printable character only: Go writes a byte that is not valid UTF-8
  and a character that is not printable as hexadecimal escapes, and the model does
  not. The paths that \<open>ParseCLIArgument\<close> accepts are identifiers joined by dots.
\<close>

definition lowerhex :: "nat \<Rightarrow> char" where
  "lowerhex n = ''0123456789abcdef'' ! (n mod 16)"

definition quoteChar :: "char \<Rightarrow> string" where
  "quoteChar c =
     (let n = (of_char c :: nat) in
      if n = 0x22 then [CHR 0x5C, CHR 0x22]
      else if n = 0x5C then [CHR 0x5C, CHR 0x5C]
      else if n = 7 then [CHR 0x5C, CHR ''a'']
      else if n = 8 then [CHR 0x5C, CHR ''b'']
      else if n = 12 then [CHR 0x5C, CHR ''f'']
      else if n = 10 then [CHR 0x5C, CHR ''n'']
      else if n = 13 then [CHR 0x5C, CHR ''r'']
      else if n = 9 then [CHR 0x5C, CHR ''t'']
      else if n = 11 then [CHR 0x5C, CHR ''v'']
      else if n < 0x20 \<or> n = 0x7F then [CHR 0x5C, CHR ''x'', lowerhex (n div 16), lowerhex n]
      else [c])"

definition quoteq :: "string \<Rightarrow> string" where
  "quoteq s = [CHR 0x22] @ concat (map quoteChar s) @ [CHR 0x22]"

definition HasErrors :: "Diagnostic list \<Rightarrow> bool" where
  "HasErrors diags = (\<exists>d \<in> set diags. Severity d = DiagError)"

section \<open>The path overlay (cli_args.go)\<close>

definition invalidArgError :: "cliArgOverlay \<Rightarrow> Diagnostic" where
  "invalidArgError ov =
     \<lparr>Severity = DiagError,
      Summary = ''Invalid argument'',
      Detail = ''Unexpected argument '' @ quoteq (fullPath ov) @ ''.'',
      Subject = None\<rparr>"

definition subOverlay :: "cliArgOverlay \<Rightarrow> string list \<Rightarrow> cliArgOverlay" where
  "subOverlay ov remainingSteps =
     \<lparr>fullPath = fullPath ov, steps = remainingSteps, val = val ov\<rparr>"

text \<open>
  \<open>reflect.DeepEqual\<close> on two string slices holds when both are nil or both are
  non-nil with the same elements; the test before it makes every pair of slices of
  length zero match, so that a nil label slice matches an empty one.
\<close>

definition labelsMatch :: "string list \<Rightarrow> string list \<Rightarrow> bool" where
  "labelsMatch a b = (if length a = 0 \<and> length b = 0 then True else a = b)"

definition ApplyOverlays :: "Body \<Rightarrow> cliArgOverlay list \<Rightarrow> Body" where
  "ApplyOverlays body ovs = (if length ovs = 0 then body else applyBody body ovs)"

definition overlayAttribute :: "cliArgOverlay \<Rightarrow> string \<Rightarrow> Attribute" where
  "overlayAttribute ov name =
     \<lparr>attrName = name, Expr = StaticExpr (StringVal (val ov)) zeroRange,
      attrRange = zeroRange, NameRange = zeroRange\<rparr>"

text \<open>
  The loop over \<open>content.Blocks\<close>: the first block with the wanted type and labels
  gets its body wrapped; \<open>None\<close> when the loop falls through without finding one.
\<close>

fun overrideBlock ::
  "string \<Rightarrow> string list \<Rightarrow> cliArgOverlay \<Rightarrow> Block list \<Rightarrow> Block list option" where
  "overrideBlock ty wantLabels sub [] = None"
| "overrideBlock ty wantLabels sub (block # rest) =
     (if blockType block \<noteq> ty then
        map_option ((#) block) (overrideBlock ty wantLabels sub rest)
      else if \<not> labelsMatch (Labels block) wantLabels then
        map_option ((#) block) (overrideBlock ty wantLabels sub rest)
      else Some (setBody block (ApplyOverlays (Body block) [sub]) # rest))"

definition newBlock :: "string \<Rightarrow> string list \<Rightarrow> cliArgOverlay \<Rightarrow> Block" where
  "newBlock ty wantLabels sub =
     Block ty wantLabels (ApplyOverlays EmptyBody [sub]) zeroRange zeroRange
       (replicate (length wantLabels) zeroRange)"

text \<open>
  The two schema loops return from their first matching entry, so each is a search
  for the first entry with the name of the first step.
\<close>

definition PartialApplyOverlay ::
  "cliArgOverlay \<Rightarrow> BodyContent \<Rightarrow> BodySchema
     \<Rightarrow> panic + (BodyContent \<times> cliArgOverlay option \<times> Diagnostic list)" where
  "PartialApplyOverlay ov content schema =
     (case steps ov of
        [] \<Rightarrow> Inl IndexOutOfRange
      | name # _ \<Rightarrow>
          (case find (\<lambda>attrS. Name attrS = name) (schemaAttributes schema) of
             Some attrS \<Rightarrow>
               if length (steps ov) \<noteq> 1 then Inr (content, None, [invalidArgError ov])
               else Inr (setAttribute content name (overlayAttribute ov name), None, [])
           | None \<Rightarrow>
               (case find (\<lambda>blockS. Type blockS = name) (schemaBlocks schema) of
                  Some blockS \<Rightarrow>
                    (let needStepCount = 1 + 1 + length (LabelNames blockS) in
                     if length (steps ov) < needStepCount then
                       Inr (content, None, [invalidArgError ov])
                     else
                       (let wantLabels = take (length (LabelNames blockS)) (drop 1 (steps ov));
                            remainingSteps = drop (length wantLabels + 1) (steps ov);
                            sub = subOverlay ov remainingSteps
                        in case overrideBlock (Type blockS) wantLabels sub (Blocks content) of
                             Some blocks \<Rightarrow> Inr (setBlocks content blocks, None, [])
                           | None \<Rightarrow>
                               Inr (setBlocks content
                                      (Blocks content @ [newBlock (Type blockS) wantLabels sub]),
                                    None, [])))
                | None \<Rightarrow> Inr (content, Some ov, []))))"

definition ApplyOverlay ::
  "cliArgOverlay \<Rightarrow> BodyContent \<Rightarrow> BodySchema \<Rightarrow> panic + (BodyContent \<times> Diagnostic list)" where
  "ApplyOverlay ov content schema =
     (case PartialApplyOverlay ov content schema of
        Inl p \<Rightarrow> Inl p
      | Inr (ret, remain, diags) \<Rightarrow>
          (if remain \<noteq> None then Inr (ret, diags @ [invalidArgError ov])
           else Inr (ret, diags)))"

definition ApplyJustAttributes ::
  "cliArgOverlay \<Rightarrow> (string \<rightharpoonup> Attribute)
     \<Rightarrow> panic + ((string \<rightharpoonup> Attribute) \<times> Diagnostic list)" where
  "ApplyJustAttributes ov attrs =
     (if length (steps ov) \<noteq> 1 then Inr (attrs, [invalidArgError ov])
      else (case steps ov of
              [] \<Rightarrow> Inl IndexOutOfRange
            | name # _ \<Rightarrow> Inr (attrs(name \<mapsto> overlayAttribute ov name), [])))"


text \<open>
  \<open>ParseCLIArgument\<close> splits \<open>path=value\<close> at the first equals sign and the path
  at its dots. \<open>hclsyntax.ValidIdentifier\<close> belongs to the HCL library and is a
  parameter here.
\<close>

fun checkSteps ::
  "(string \<Rightarrow> bool) \<Rightarrow> string \<Rightarrow> string list \<Rightarrow> Diagnostic list \<Rightarrow> Diagnostic list" where
  "checkSteps ValidIdentifier path [] diags = diags"
| "checkSteps ValidIdentifier path (step # rest) diags =
     (if \<not> ValidIdentifier step then
        checkSteps ValidIdentifier path rest
          (diags @
           [\<lparr>Severity = DiagError,
             Summary = ''Invalid argument'',
             Detail = ''Invalid component '' @ quoteq step @ '' in argument '' @ quoteq path
               @ '': dot-separated parts must be a letter followed by zero or more letters, digits, or underscores.'',
             Subject = None\<rparr>])
      else checkSteps ValidIdentifier path rest diags)"

definition ParseCLIArgument ::
  "(string \<Rightarrow> bool) \<Rightarrow> string \<Rightarrow> cliArgOverlay option \<times> Diagnostic list" where
  "ParseCLIArgument ValidIdentifier raw =
     (let eq = IndexByte raw CHR ''='' in
      if eq < 1 then
        (None,
         [\<lparr>Severity = DiagError,
           Summary = ''Invalid argument'',
           Detail = ''Invalid argument '' @ quoteq raw
             @ '': must be a configuration setting, followed by an equals sign, and then a value for that setting.'',
           Subject = None\<rparr>])
      else
        (let path = take (nat eq) raw;
             v = drop (nat eq + 1) raw;
             stps = Split path CHR ''.'';
             diags = checkSteps ValidIdentifier path stps []
         in if HasErrors diags then (None, diags)
            else (Some \<lparr>fullPath = path, steps = stps, val = v\<rparr>, [])))"

text \<open>
  The loop of \<open>ExtractCLIOptions\<close> over the arguments carries \<open>remain\<close>,
  \<open>overlays\<close> and \<open>diags\<close>; the literal \<open>--\<close> breaks out of it.
\<close>

fun extractLoop ::
  "(string \<Rightarrow> bool) \<Rightarrow> BodySchema \<Rightarrow> string list
     \<Rightarrow> string list \<times> cliArgOverlay list \<times> Diagnostic list
     \<Rightarrow> string list \<times> cliArgOverlay list \<times> Diagnostic list" where
  "extractLoop ValidIdentifier schema [] acc = acc"
| "extractLoop ValidIdentifier schema (arg # rest) (remain, ovs, diags) =
     (if arg = ''--'' then (remain @ rest, ovs, diags)
      else if \<not> HasPrefix arg ''--'' then
        extractLoop ValidIdentifier schema rest (remain @ [arg], ovs, diags)
      else
        (let raw = drop 2 arg;
             sep = IndexAny raw ''.='';
             match = (if sep \<noteq> -1 then take (nat sep) raw else raw);
             matched = ((\<exists>attrS \<in> set (schemaAttributes schema). Name attrS = match)
                        \<or> (\<exists>blockS \<in> set (schemaBlocks schema). Type blockS = match))
         in if \<not> matched then
              extractLoop ValidIdentifier schema rest (remain, ovs, diags)
            else
              (case ParseCLIArgument ValidIdentifier raw of
                 (Some ov, moreDiags) \<Rightarrow>
                   extractLoop ValidIdentifier schema rest
                     (remain, ovs @ [ov], diags @ moreDiags)
               | (None, moreDiags) \<Rightarrow>
                   extractLoop ValidIdentifier schema rest
                     (remain, ovs, diags @ moreDiags))))"

text \<open>
  The function returns \<open>overlays, args, diags\<close>: its second result is the parameter
  \<open>args\<close>, not the \<open>remain\<close> that the loop has built.
\<close>

definition ExtractCLIOptions ::
  "(string \<Rightarrow> bool) \<Rightarrow> string list \<Rightarrow> BodySchema
     \<Rightarrow> cliArgOverlay list \<times> string list \<times> Diagnostic list" where
  "ExtractCLIOptions ValidIdentifier args schema =
     (case extractLoop ValidIdentifier schema args ([], [], []) of
        (remain, ovs, diags) \<Rightarrow> (ovs, args, diags))"

section \<open>The composition view (overlay.go)\<close>

definition schemaNoRequired :: "BodySchema \<Rightarrow> BodySchema" where
  "schemaNoRequired given =
     \<lparr>schemaAttributes = map (\<lambda>attrS. attrS\<lparr>Required := False\<rparr>) (schemaAttributes given),
      schemaBlocks = schemaBlocks given\<rparr>"

text \<open>
  \<open>MissingItemRange\<close> of an \<open>applyBody\<close> is that of its inner body. For the empty body
  the HCL library returns a range that names no position, with the file name
  \<open><empty>\<close>.
\<close>

fun MissingItemRange :: "Body \<Rightarrow> Range" where
  "MissingItemRange (Native c p j m) = m"
| "MissingItemRange EmptyBody = \<lparr>Filename = ''<empty>'', Start = zeroPos, End = zeroPos\<rparr>"
| "MissingItemRange (applyBody b ovs) = MissingItemRange b"

definition missingRequiredDiag :: "Range \<Rightarrow> string \<Rightarrow> Diagnostic" where
  "missingRequiredDiag rng name =
     \<lparr>Severity = DiagError,
      Summary = ''Missing required argument'',
      Detail = ''The argument '' @ quoteq name @ '' is required, but no definition was found.'',
      Subject = Some rng\<rparr>"

fun prepareLoop ::
  "Range \<Rightarrow> BodyContent \<Rightarrow> AttributeSchema list \<Rightarrow> Diagnostic list \<Rightarrow> Diagnostic list" where
  "prepareLoop rng result [] diags = diags"
| "prepareLoop rng result (attrS # rest) diags =
     (if \<not> Required attrS then prepareLoop rng result rest diags
      else if Attributes result (Name attrS) = None then
        prepareLoop rng result rest (diags @ [missingRequiredDiag rng (Name attrS)])
      else prepareLoop rng result rest diags)"

definition prepareContent ::
  "Body \<Rightarrow> BodyContent \<Rightarrow> BodySchema \<Rightarrow> Diagnostic list \<Rightarrow> BodyContent \<times> Diagnostic list" where
  "prepareContent b result schema diags =
     (result, prepareLoop (MissingItemRange b) result (schemaAttributes schema) diags)"

text \<open>The three loops that fold the overlays over the decoded base.\<close>

fun applyLoop ::
  "cliArgOverlay list \<Rightarrow> BodySchema \<Rightarrow> BodyContent \<Rightarrow> Diagnostic list
     \<Rightarrow> panic + (BodyContent \<times> Diagnostic list)" where
  "applyLoop [] modSchema content diags = Inr (content, diags)"
| "applyLoop (ov # ovs) modSchema content diags =
     (case ApplyOverlay ov content modSchema of
        Inl p \<Rightarrow> Inl p
      | Inr (content', moreDiags) \<Rightarrow> applyLoop ovs modSchema content' (diags @ moreDiags))"

fun partialLoop ::
  "cliArgOverlay list \<Rightarrow> BodySchema \<Rightarrow> BodyContent \<Rightarrow> cliArgOverlay list \<Rightarrow> Diagnostic list
     \<Rightarrow> panic + (BodyContent \<times> cliArgOverlay list \<times> Diagnostic list)" where
  "partialLoop [] modSchema content remainOverlays diags = Inr (content, remainOverlays, diags)"
| "partialLoop (ov # ovs) modSchema content remainOverlays diags =
     (case PartialApplyOverlay ov content modSchema of
        Inl p \<Rightarrow> Inl p
      | Inr (content', remainOverlay, moreDiags) \<Rightarrow>
          partialLoop ovs modSchema content'
            (case remainOverlay of None \<Rightarrow> remainOverlays | Some r \<Rightarrow> remainOverlays @ [r])
            (diags @ moreDiags))"

fun attrsLoop ::
  "cliArgOverlay list \<Rightarrow> (string \<rightharpoonup> Attribute) \<Rightarrow> Diagnostic list
     \<Rightarrow> panic + ((string \<rightharpoonup> Attribute) \<times> Diagnostic list)" where
  "attrsLoop [] attrs diags = Inr (attrs, diags)"
| "attrsLoop (ov # ovs) attrs diags =
     (case ApplyJustAttributes ov attrs of
        Inl p \<Rightarrow> Inl p
      | Inr (attrs', moreDiags) \<Rightarrow> attrsLoop ovs attrs' (diags @ moreDiags))"

text \<open>
  What the empty body of the HCL library decodes to: no attribute and no block, and
  one error for each attribute that the schema requires. Under an \<open>applyBody\<close> the
  schema it is given requires none.
\<close>

definition emptyBodyDiags :: "BodySchema \<Rightarrow> Diagnostic list" where
  "emptyBodyDiags schema =
     map (\<lambda>attrS.
            \<lparr>Severity = DiagError,
             Summary = ''Missing required argument'',
             Detail = ''The argument '' @ quoteq (Name attrS) @ '' is required, but was not set.'',
             Subject = None\<rparr>)
         (filter Required (schemaAttributes schema))"

fun Content :: "Body \<Rightarrow> BodySchema \<Rightarrow> panic + (BodyContent \<times> Diagnostic list)" where
  "Content (Native c p j m) schema = Inr (c schema)"
| "Content EmptyBody schema = Inr (BodyContent Map.empty [] zeroRange, emptyBodyDiags schema)"
| "Content (applyBody b ovs) schema =
     (let modSchema = schemaNoRequired schema in
      case Content b modSchema of
        Inl p \<Rightarrow> Inl p
      | Inr (content, diags) \<Rightarrow>
          (case applyLoop ovs modSchema content diags of
             Inl p \<Rightarrow> Inl p
           | Inr (content', diags') \<Rightarrow>
               Inr (prepareContent (applyBody b ovs) content' schema diags')))"

fun PartialContent ::
  "Body \<Rightarrow> BodySchema \<Rightarrow> panic + (BodyContent \<times> Body \<times> Diagnostic list)" where
  "PartialContent (Native c p j m) schema = Inr (p schema)"
| "PartialContent EmptyBody schema =
     Inr (BodyContent Map.empty [] zeroRange, EmptyBody, emptyBodyDiags schema)"
| "PartialContent (applyBody b ovs) schema =
     (let modSchema = schemaNoRequired schema in
      case PartialContent b modSchema of
        Inl p \<Rightarrow> Inl p
      | Inr (content, remain, diags) \<Rightarrow>
          (case partialLoop ovs modSchema content [] diags of
             Inl p \<Rightarrow> Inl p
           | Inr (content', remainOverlays, diags') \<Rightarrow>
               (let remain' = ApplyOverlays remain remainOverlays in
                case prepareContent (applyBody b ovs) content' schema diags' of
                  (content'', diags'') \<Rightarrow> Inr (content'', remain', diags''))))"

fun JustAttributes :: "Body \<Rightarrow> panic + ((string \<rightharpoonup> Attribute) \<times> Diagnostic list)" where
  "JustAttributes (Native c p j m) = Inr j"
| "JustAttributes EmptyBody = Inr (Map.empty, [])"
| "JustAttributes (applyBody b ovs) =
     (case JustAttributes b of
        Inl p \<Rightarrow> Inl p
      | Inr (attrs, diags) \<Rightarrow> attrsLoop ovs attrs diags)"


section \<open>Decoding a whole tree\<close>

text \<open>
  An application decodes a body with a schema, and then the body of each block with
  the schema of its block type (\<open>gohcl.DecodeBody\<close> does so, from the fields of a
  struct type). A \<open>DeepSchema\<close> is such a tree of schemas, and \<open>deepContent\<close> is the
  decoded tree: the attributes, and each block in order with its header and the
  decoded content of its body. A block whose type the schema does not list keeps
  its header only. The first entry of the schema with the type of the block gives
  the nested schema.
\<close>

datatype DeepSchema =
  DeepSchema (dsAttributes: "AttributeSchema list")
    (dsBlocks: "(BlockHeaderSchema \<times> DeepSchema) list")

datatype DeepContent =
    DeepContent (dcAttributes: "string \<rightharpoonup> Attribute") (dcBlocks: "DeepBlock list")
and DeepBlock =
    DeepBlock (dbType: string) (dbLabels: "string list") (dbDefRange: Range)
      (dbTypeRange: Range) (dbLabelRanges: "Range list")
      (dbContent: "(panic + DeepContent) option")

function deepContent :: "Body \<Rightarrow> DeepSchema \<Rightarrow> panic + DeepContent" where
  "deepContent body (DeepSchema attrs blocks) =
     (case Content body \<lparr>schemaAttributes = attrs, schemaBlocks = map fst blocks\<rparr> of
        Inl p \<Rightarrow> Inl p
      | Inr (content, diags) \<Rightarrow>
          Inr (DeepContent (Attributes content)
                 (map (\<lambda>block.
                         DeepBlock (blockType block) (Labels block) (DefRange block)
                           (TypeRange block) (LabelRanges block)
                           (case find (\<lambda>entry. Type (fst entry) = blockType block) blocks of
                              None \<Rightarrow> None
                            | Some entry \<Rightarrow> Some (deepContent (Body block) (snd entry))))
                      (Blocks content))))"
  by pat_completeness auto
termination
proof (relation "measure (\<lambda>(body, ds). size ds)", goal_cases)
  case 1
  show ?case by simp
next
  case (2 body attrs blocks x2 content diags block entry)
  then have "entry \<in> set blocks"
    by (auto simp: find_Some_iff)
  then have "size (snd entry) < Suc (size_list (size_prod (\<lambda>_. 0) size) blocks)"
    by (induction blocks) (auto simp: less_Suc_eq_le trans_le_add1)
  then show ?case by simp
qed

text \<open>
  Applying an overlay a second time wraps a body that the first application has
  wrapped. These relations say that two bodies, blocks or contents differ in nothing
  but such a second wrapper.
\<close>

definition wrappedTwice :: "Body \<Rightarrow> Body \<Rightarrow> bool" where
  "wrappedTwice b2 b1 =
     (b2 = b1 \<or> (\<exists>B sub. b2 = applyBody (applyBody B [sub]) [sub] \<and> b1 = applyBody B [sub]))"

definition blockRel :: "Block \<Rightarrow> Block \<Rightarrow> bool" where
  "blockRel k2 k1 =
     (blockType k2 = blockType k1 \<and> Labels k2 = Labels k1 \<and> DefRange k2 = DefRange k1
      \<and> TypeRange k2 = TypeRange k1 \<and> LabelRanges k2 = LabelRanges k1
      \<and> wrappedTwice (Body k2) (Body k1))"

definition contentRel :: "BodyContent \<Rightarrow> BodyContent \<Rightarrow> bool" where
  "contentRel c2 c1 =
     (Attributes c2 = Attributes c1 \<and> list_all2 blockRel (Blocks c2) (Blocks c1))"

section \<open>Example inputs\<close>

text \<open>
  \<open>hclsyntax.ValidIdentifier\<close> on ASCII input: a letter or an underscore, then
  letters, digits, underscores and dashes.
\<close>

definition isLetter :: "char \<Rightarrow> bool" where
  "isLetter c =
     (let n = (of_char c :: nat) in (65 \<le> n \<and> n \<le> 90) \<or> (97 \<le> n \<and> n \<le> 122))"

definition isDigit :: "char \<Rightarrow> bool" where
  "isDigit c = (let n = (of_char c :: nat) in 48 \<le> n \<and> n \<le> 57)"

definition asciiValidIdentifier :: "string \<Rightarrow> bool" where
  "asciiValidIdentifier s =
     (case s of
        [] \<Rightarrow> False
      | c # cs \<Rightarrow>
          (isLetter c \<or> c = CHR ''_'')
          \<and> list_all (\<lambda>c. isLetter c \<or> isDigit c \<or> c = CHR ''_'' \<or> c = CHR ''-'') cs)"

text \<open>
  The documents of the package's tests: \<open>foo = "a"\<close> at the root, and blocks of type
  \<open>block\<close> with one label, each holding \<open>foo\<close>. A source expression is numbered; a
  parsed body returns the same content for every schema here.
\<close>

definition sourceAttribute :: "string \<Rightarrow> nat \<Rightarrow> Attribute" where
  "sourceAttribute name n =
     \<lparr>attrName = name, Expr = SourceExpr n,
      attrRange = \<lparr>Filename = ''config.hcl'', Start = \<lparr>Line = 1, Column = 1, Byte = 0\<rparr>,
                   End = \<lparr>Line = 1, Column = 10, Byte = 9\<rparr>\<rparr>,
      NameRange = \<lparr>Filename = ''config.hcl'', Start = \<lparr>Line = 1, Column = 1, Byte = 0\<rparr>,
                   End = \<lparr>Line = 1, Column = 4, Byte = 3\<rparr>\<rparr>\<rparr>"

definition fooSchema :: BodySchema where
  "fooSchema = \<lparr>schemaAttributes = [\<lparr>Name = ''foo'', Required = True\<rparr>], schemaBlocks = []\<rparr>"

definition fooContent :: "nat \<Rightarrow> BodyContent" where
  "fooContent n = BodyContent [''foo'' \<mapsto> sourceAttribute ''foo'' n] [] zeroRange"

definition parsedBody :: "BodyContent \<Rightarrow> Body" where
  "parsedBody content =
     Native (\<lambda>schema. (content, [])) (\<lambda>schema. (content, EmptyBody, []))
       (Attributes content, []) zeroRange"

definition blockSchema :: BodySchema where
  "blockSchema =
     \<lparr>schemaAttributes = [], schemaBlocks = [\<lparr>Type = ''block'', LabelNames = [''name'']\<rparr>]\<rparr>"

definition labelledBlock :: "string \<Rightarrow> nat \<Rightarrow> Block" where
  "labelledBlock label n =
     Block ''block'' [label] (parsedBody (fooContent n)) zeroRange zeroRange [zeroRange]"

definition blockContent :: BodyContent where
  "blockContent =
     BodyContent Map.empty [labelledBlock ''a'' 1, labelledBlock ''b'' 2, labelledBlock ''b'' 3]
       zeroRange"

text \<open>The schema of the example program: \<open>io_mode\<close> and the \<open>service\<close> blocks.\<close>

definition serviceSchema :: BodySchema where
  "serviceSchema =
     \<lparr>schemaAttributes = [\<lparr>Name = ''listen_addr'', Required = True\<rparr>], schemaBlocks = []\<rparr>"

definition rootSchema :: BodySchema where
  "rootSchema =
     \<lparr>schemaAttributes = [\<lparr>Name = ''io_mode'', Required = True\<rparr>],
      schemaBlocks = [\<lparr>Type = ''service'', LabelNames = [''type'', ''name'']\<rparr>]\<rparr>"

definition serviceContent :: BodyContent where
  "serviceContent =
     BodyContent [''listen_addr'' \<mapsto> sourceAttribute ''listen_addr'' 2] [] zeroRange"

definition rootContent :: BodyContent where
  "rootContent =
     BodyContent [''io_mode'' \<mapsto> sourceAttribute ''io_mode'' 1]
       [Block ''service'' [''http'', ''web_proxy''] (parsedBody serviceContent)
          zeroRange zeroRange [zeroRange, zeroRange]]
       zeroRange"

text \<open>
  A schema that requires \<open>foo\<close>, \<open>bar\<close> and \<open>baz\<close>, and a parsed body that, as the
  parser of the native syntax does, reports each attribute that the schema it is
  given requires and the document lacks, at the end of the file as its missing item
  range.
\<close>

definition fooBarBazSchema :: BodySchema where
  "fooBarBazSchema =
     \<lparr>schemaAttributes =
        [\<lparr>Name = ''foo'', Required = True\<rparr>, \<lparr>Name = ''bar'', Required = True\<rparr>,
         \<lparr>Name = ''baz'', Required = True\<rparr>],
      schemaBlocks = []\<rparr>"

definition configEnd :: Range where
  "configEnd =
     \<lparr>Filename = ''config.hcl'', Start = \<lparr>Line = 2, Column = 1, Byte = 10\<rparr>,
      End = \<lparr>Line = 2, Column = 1, Byte = 10\<rparr>\<rparr>"

definition checkedBody :: "BodyContent \<Rightarrow> Body" where
  "checkedBody content =
     Native
       (\<lambda>schema.
          (content,
           map (\<lambda>attrS. missingRequiredDiag configEnd (Name attrS))
             (filter (\<lambda>attrS. Required attrS \<and> Attributes content (Name attrS) = None)
                (schemaAttributes schema))))
       (\<lambda>schema.
          (content, EmptyBody,
           map (\<lambda>attrS. missingRequiredDiag configEnd (Name attrS))
             (filter (\<lambda>attrS. Required attrS \<and> Attributes content (Name attrS) = None)
                (schemaAttributes schema))))
       (Attributes content, []) configEnd"

definition rootDeepSchema :: DeepSchema where
  "rootDeepSchema =
     DeepSchema (schemaAttributes rootSchema)
       [(\<lparr>Type = ''service'', LabelNames = [''type'', ''name'']\<rparr>,
         DeepSchema (schemaAttributes serviceSchema) [])]"

section \<open>Auxiliary facts\<close>

lemma find_attr_declared:
  "a \<in> Name ` set attrs \<Longrightarrow> \<exists>attrS. find (\<lambda>attrS. Name attrS = a) attrs = Some attrS"
  by (cases "find (\<lambda>attrS. Name attrS = a) attrs") (auto simp: find_None_iff)

lemma find_attr_undeclared:
  "a \<notin> Name ` set attrs \<Longrightarrow> find (\<lambda>attrS. Name attrS = a) attrs = None"
  by (auto simp: find_None_iff)

lemma find_block_undeclared:
  "a \<notin> Type ` set blocks \<Longrightarrow> find (\<lambda>blockS. Type blockS = a) blocks = None"
  by (auto simp: find_None_iff)

lemma labelsMatch_eq: "labelsMatch a b = (a = b)"
  by (auto simp: labelsMatch_def)

lemma schemaNoRequired_names:
  "map Name (schemaAttributes (schemaNoRequired schema)) = map Name (schemaAttributes schema)"
  by (simp add: schemaNoRequired_def comp_def)

lemma schemaNoRequired_names_set:
  "Name ` set (schemaAttributes (schemaNoRequired schema)) = Name ` set (schemaAttributes schema)"
  using schemaNoRequired_names [of schema] by (metis set_map)

lemma schemaNoRequired_blocks:
  "schemaBlocks (schemaNoRequired schema) = schemaBlocks schema"
  by (simp add: schemaNoRequired_def)

lemma schemaNoRequired_idem: "schemaNoRequired (schemaNoRequired s) = schemaNoRequired s"
  by (simp add: schemaNoRequired_def comp_def)

lemma Content_single:
  "Content (applyBody b [ov]) s =
     (case Content b (schemaNoRequired s) of
        Inl p \<Rightarrow> Inl p
      | Inr (c0, d0) \<Rightarrow>
          (case ApplyOverlay ov c0 (schemaNoRequired s) of
             Inl p \<Rightarrow> Inl p
           | Inr (c1, d1) \<Rightarrow> Inr (prepareContent (applyBody b [ov]) c1 s (d0 @ d1))))"
  by (simp split: sum.splits prod.splits)

lemma Content_double:
  "Content (applyBody b [ov, ov]) s =
     (case Content b (schemaNoRequired s) of
        Inl p \<Rightarrow> Inl p
      | Inr (c0, d0) \<Rightarrow>
          (case ApplyOverlay ov c0 (schemaNoRequired s) of
             Inl p \<Rightarrow> Inl p
           | Inr (c1, d1) \<Rightarrow>
               (case ApplyOverlay ov c1 (schemaNoRequired s) of
                  Inl p \<Rightarrow> Inl p
                | Inr (c2, d2) \<Rightarrow>
                    Inr (prepareContent (applyBody b [ov, ov]) c2 s ((d0 @ d1) @ d2)))))"
  by (simp split: sum.splits prod.splits)

lemma prepareLoop_eq:
  "prepareLoop rng result attrs diags =
     diags @ map (\<lambda>attrS. missingRequiredDiag rng (Name attrS))
               (filter (\<lambda>attrS. Required attrS \<and> Attributes result (Name attrS) = None) attrs)"
  by (induction attrs arbitrary: diags) auto

lemma applyLoop_diags:
  "applyLoop ovs s c diags =
     (case applyLoop ovs s c [] of Inl p \<Rightarrow> Inl p | Inr (c', ms) \<Rightarrow> Inr (c', diags @ ms))"
proof (induction ovs arbitrary: c diags)
  case Nil
  show ?case by simp
next
  case (Cons ov ovs)
  show ?case
  proof (cases "ApplyOverlay ov c s")
    case (Inl p)
    then show ?thesis by simp
  next
    case (Inr r)
    obtain c1 d1 where r: "r = (c1, d1)" by (cases r)
    have a: "applyLoop ovs s c1 (diags @ d1) =
        (case applyLoop ovs s c1 [] of
           Inl p \<Rightarrow> Inl p | Inr (c', ms) \<Rightarrow> Inr (c', (diags @ d1) @ ms))"
      by (rule Cons.IH)
    have b: "applyLoop ovs s c1 d1 =
        (case applyLoop ovs s c1 [] of Inl p \<Rightarrow> Inl p | Inr (c', ms) \<Rightarrow> Inr (c', d1 @ ms))"
      by (rule Cons.IH)
    show ?thesis
      using Inr r a b by (simp split: sum.splits prod.splits)
  qed
qed

text \<open>The fold is from left to right: the later overlays start from what the earlier ones returned.\<close>

lemma applyLoop_append:
  "applyLoop (xs @ ys) s c diags =
     (case applyLoop xs s c diags of
        Inl p \<Rightarrow> Inl p
      | Inr (c', diags') \<Rightarrow> applyLoop ys s c' diags')"
  by (induction xs arbitrary: c diags) (auto split: sum.splits)

text \<open>
  The loop of \<open>Content\<close> over the overlays is the left fold of the list library: every
  overlay is applied, in order, to the content that the one before it returned, and
  its diagnostics are appended; a panic ends it.
\<close>

lemma foldl_Inl:
  "foldl (\<lambda>acc ov. case acc of
            Inl p \<Rightarrow> Inl p
          | Inr (c, ds) \<Rightarrow>
              (case ApplyOverlay ov c s of
                 Inl p \<Rightarrow> Inl p
               | Inr (c', ms) \<Rightarrow> Inr (c', ds @ ms))) (Inl p) ovs = Inl p"
  by (induction ovs) simp_all

lemma applyLoop_foldl:
  "applyLoop ovs s c ds =
     foldl (\<lambda>acc ov. case acc of
              Inl p \<Rightarrow> Inl p
            | Inr (c, ds) \<Rightarrow>
                (case ApplyOverlay ov c s of
                   Inl p \<Rightarrow> Inl p
                 | Inr (c', ms) \<Rightarrow> Inr (c', ds @ ms))) (Inr (c, ds)) ovs"
proof (induction ovs arbitrary: c ds)
  case Nil
  show ?case by simp
next
  case (Cons ov ovs)
  show ?case
  proof (cases "ApplyOverlay ov c s")
    case (Inl p)
    then show ?thesis by (simp add: foldl_Inl)
  next
    case (Inr r)
    obtain c1 d1 where "r = (c1, d1)" by (cases r)
    then show ?thesis using Inr Cons.IH [of c1 "ds @ d1"] by simp
  qed
qed

lemma attribute_step:
  assumes "a \<in> Name ` set (schemaAttributes schema)" and "steps ov = [a]"
  shows "PartialApplyOverlay ov content schema
           = Inr (setAttribute content a (overlayAttribute ov a), None, [])"
proof -
  obtain attrS where "find (\<lambda>attrS. Name attrS = a) (schemaAttributes schema) = Some attrS"
    using find_attr_declared [OF assms(1)] by blast
  then show ?thesis
    by (simp add: PartialApplyOverlay_def assms(2))
qed

lemma overrideBlock_first:
  assumes "\<forall>b \<in> set pre. \<not> (blockType b = ty \<and> Labels b = want)"
    and "blockType blk = ty" and "Labels blk = want"
  shows "overrideBlock ty want sub (pre @ blk # post)
           = Some (pre @ setBody blk (ApplyOverlays (Body blk) [sub]) # post)"
  using assms by (induction pre) (auto simp: labelsMatch_eq)

lemma overrideBlock_none:
  assumes "\<forall>b \<in> set blocks. \<not> (blockType b = ty \<and> Labels b = want)"
  shows "overrideBlock ty want sub blocks = None"
  using assms by (induction blocks) (auto simp: labelsMatch_eq)


lemma block_step:
  assumes st: "steps ov = name # rest"
    and na: "name \<notin> Name ` set (schemaAttributes schema)"
    and fb: "find (\<lambda>blockS. Type blockS = name) (schemaBlocks schema) = Some blockS"
    and enough: "2 + length (LabelNames blockS) \<le> length (steps ov)"
  shows "PartialApplyOverlay ov content schema =
     (case overrideBlock name (take (length (LabelNames blockS)) rest)
             \<lparr>fullPath = fullPath ov, steps = drop (length (LabelNames blockS)) rest, val = val ov\<rparr>
             (Blocks content) of
        Some blocks \<Rightarrow> Inr (setBlocks content blocks, None, [])
      | None \<Rightarrow>
          Inr (setBlocks content
                 (Blocks content @
                  [newBlock name (take (length (LabelNames blockS)) rest)
                     \<lparr>fullPath = fullPath ov, steps = drop (length (LabelNames blockS)) rest,
                      val = val ov\<rparr>]),
               None, []))"
proof -
  have ty: "Type blockS = name"
    using fb by (auto simp: find_Some_iff)
  have len: "length (LabelNames blockS) < length rest"
    using enough st by simp
  then have lt: "length (take (length (LabelNames blockS)) rest) = length (LabelNames blockS)"
    by simp
  show ?thesis
    using len lt
    by (simp add: PartialApplyOverlay_def st find_attr_undeclared [OF na] fb ty subOverlay_def
        split: option.split)
qed


text \<open>
  \<open>PartialContent\<close> hands the leftover overlays on, around the leftover body: they
  are overlays of the view itself, in their order, none of them shortened.
\<close>

lemma partialLoop_leftovers:
  "partialLoop ovs s c acc d = Inr (c', rs, d') \<Longrightarrow>
     \<exists>ks. rs = acc @ ks \<and> set ks \<subseteq> set ovs"
proof (induction ovs arbitrary: c acc d)
  case Nil
  then show ?case by simp
next
  case (Cons ov ovs)
  from Cons.prems obtain c1 r1 d1 where
    p: "PartialApplyOverlay ov c s = Inr (c1, r1, d1)"
    and l: "partialLoop ovs s c1 (case r1 of None \<Rightarrow> acc | Some r \<Rightarrow> acc @ [r]) (d @ d1)
             = Inr (c', rs, d')"
    by (auto split: sum.splits)
  have r1: "r1 = None \<or> r1 = Some ov"
    using p
    by (auto simp: PartialApplyOverlay_def Let_def split: list.splits option.splits if_splits)
  obtain ks where ks: "rs = (case r1 of None \<Rightarrow> acc | Some r \<Rightarrow> acc @ [r]) @ ks"
    "set ks \<subseteq> set ovs"
    using Cons.IH [OF l] by blast
  show ?case
  proof (cases r1)
    case None
    then show ?thesis using ks by auto
  next
    case (Some r)
    then have "r = ov" using r1 by simp
    then show ?thesis
      using ks Some by (intro exI [of _ "ov # ks"]) auto
  qed
qed

lemma PartialContent_leftovers:
  assumes "PartialContent (applyBody b ovs) schema = Inr (content, remain, diags)"
  shows "\<exists>content0 remain0 diags0 ks.
           PartialContent b (schemaNoRequired schema) = Inr (content0, remain0, diags0)
         \<and> remain = ApplyOverlays remain0 ks \<and> set ks \<subseteq> set ovs"
proof -
  obtain content0 remain0 diags0 where
    b: "PartialContent b (schemaNoRequired schema) = Inr (content0, remain0, diags0)"
    using assms by (cases "PartialContent b (schemaNoRequired schema)") (auto simp: Let_def)
  obtain c1 rs d1 where
    l: "partialLoop ovs (schemaNoRequired schema) content0 [] diags0 = Inr (c1, rs, d1)"
    and r: "remain = ApplyOverlays remain0 rs"
    using assms b
    by (cases "partialLoop ovs (schemaNoRequired schema) content0 [] diags0")
       (auto simp: Let_def prepareContent_def)
  obtain ks where "rs = [] @ ks" "set ks \<subseteq> set ovs"
    using partialLoop_leftovers [OF l] by blast
  then show ?thesis
    using b r by auto
qed

section \<open>Applying an overlay a second time\<close>

lemma blockRel_refl: "blockRel k k"
  by (simp add: blockRel_def wrappedTwice_def)

lemma blockRel_list_refl: "list_all2 blockRel ks ks"
  by (simp add: list_all2_refl blockRel_refl)

lemma contentRel_refl: "contentRel c c"
  by (simp add: contentRel_def blockRel_list_refl)

lemma blockRel_wrap:
  "blockRel (setBody (setBody k (ApplyOverlays (Body k) [sub]))
               (ApplyOverlays (Body (setBody k (ApplyOverlays (Body k) [sub]))) [sub]))
            (setBody k (ApplyOverlays (Body k) [sub]))"
  by (auto simp: blockRel_def setBody_def ApplyOverlays_def wrappedTwice_def)

lemma overrideBlock_again:
  "overrideBlock ty want sub blocks = Some blocks' \<Longrightarrow>
     \<exists>blocks''. overrideBlock ty want sub blocks' = Some blocks''
        \<and> list_all2 blockRel blocks'' blocks'"
proof (induction blocks arbitrary: blocks')
  case Nil
  then show ?case by simp
next
  case (Cons k ks)
  show ?case
  proof (cases "blockType k = ty \<and> labelsMatch (Labels k) want")
    case True
    then have b': "blocks' = setBody k (ApplyOverlays (Body k) [sub]) # ks"
      using Cons.prems by auto
    have "overrideBlock ty want sub blocks' =
        Some (setBody (setBody k (ApplyOverlays (Body k) [sub]))
               (ApplyOverlays (Body (setBody k (ApplyOverlays (Body k) [sub]))) [sub]) # ks)"
      using True by (simp add: b' setBody_def)
    then show ?thesis
      by (simp add: b' blockRel_wrap blockRel_list_refl)
  next
    case False
    then obtain ks' where ks': "overrideBlock ty want sub ks = Some ks'" and b': "blocks' = k # ks'"
      using Cons.prems by (auto split: if_splits)
    obtain ks'' where "overrideBlock ty want sub ks' = Some ks''" "list_all2 blockRel ks'' ks'"
      using Cons.IH [OF ks'] by blast
    then show ?thesis
      using False by (auto simp: b' blockRel_refl)
  qed
qed

lemma overrideBlock_new:
  "overrideBlock ty want sub blocks = None \<Longrightarrow>
     \<exists>blocks''. overrideBlock ty want sub (blocks @ [newBlock ty want sub]) = Some blocks''
        \<and> list_all2 blockRel blocks'' (blocks @ [newBlock ty want sub])"
proof (induction blocks)
  case Nil
  have "overrideBlock ty want sub [newBlock ty want sub] =
      Some [setBody (newBlock ty want sub) (ApplyOverlays (Body (newBlock ty want sub)) [sub])]"
    by (simp add: newBlock_def labelsMatch_eq)
  moreover have "blockRel (setBody (newBlock ty want sub) (ApplyOverlays (Body (newBlock ty want sub)) [sub]))
      (newBlock ty want sub)"
    by (auto simp: blockRel_def setBody_def newBlock_def ApplyOverlays_def wrappedTwice_def)
  ultimately show ?case by simp
next
  case (Cons k ks)
  then have n: "overrideBlock ty want sub ks = None"
    and nm: "\<not> (blockType k = ty \<and> labelsMatch (Labels k) want)"
    by (auto split: if_splits)
  obtain ks'' where "overrideBlock ty want sub (ks @ [newBlock ty want sub]) = Some ks''"
    "list_all2 blockRel ks'' (ks @ [newBlock ty want sub])"
    using Cons.IH [OF n] by blast
  then show ?case
    using nm by (auto simp: blockRel_refl)
qed

lemma PartialApplyOverlay_again:
  assumes "PartialApplyOverlay ov c s = Inr (c1, r1, d1)"
  shows "\<exists>c2 d2. PartialApplyOverlay ov c1 s = Inr (c2, r1, d2) \<and> contentRel c2 c1"
proof (cases "steps ov")
  case Nil
  then show ?thesis using assms by (simp add: PartialApplyOverlay_def)
next
  case (Cons name rest)
  show ?thesis
  proof (cases "find (\<lambda>attrS. Name attrS = name) (schemaAttributes s)")
    case (Some attrS)
    show ?thesis
    proof (cases "length (steps ov) \<noteq> 1")
      case True
      then show ?thesis
        using assms Cons Some by (auto simp: PartialApplyOverlay_def contentRel_refl)
    next
      case False
      then have c1: "c1 = setAttribute c name (overlayAttribute ov name)" and "r1 = None"
        using assms Cons Some by (auto simp: PartialApplyOverlay_def)
      then show ?thesis
        using False Cons Some
        by (simp add: PartialApplyOverlay_def contentRel_def setAttribute_def blockRel_list_refl)
    qed
  next
    case None
    note na = None
    show ?thesis
    proof (cases "find (\<lambda>blockS. Type blockS = name) (schemaBlocks s)")
      case None
      then show ?thesis
        using assms Cons na by (auto simp: PartialApplyOverlay_def contentRel_refl)
    next
      case (Some blockS)
      show ?thesis
      proof (cases "length (steps ov) < 1 + 1 + length (LabelNames blockS)")
        case True
        then show ?thesis
          using assms Cons na Some by (auto simp: PartialApplyOverlay_def contentRel_refl)
      next
        case False
        define want where "want = take (length (LabelNames blockS)) (drop 1 (steps ov))"
        define sub where "sub = subOverlay ov (drop (length want + 1) (steps ov))"
        have unf: "\<And>c0. PartialApplyOverlay ov c0 s =
            (case overrideBlock (Type blockS) want sub (Blocks c0) of
               Some blocks \<Rightarrow> Inr (setBlocks c0 blocks, None, [])
             | None \<Rightarrow> Inr (setBlocks c0 (Blocks c0 @ [newBlock (Type blockS) want sub]), None, []))"
          using False Cons na Some unfolding want_def sub_def
          by (simp add: PartialApplyOverlay_def Let_def split: option.split)
        show ?thesis
        proof (cases "overrideBlock (Type blockS) want sub (Blocks c)")
          case None
          then have c1: "c1 = setBlocks c (Blocks c @ [newBlock (Type blockS) want sub])"
            and r1: "r1 = None"
            using assms unf by auto
          obtain bs2 where "overrideBlock (Type blockS) want sub (Blocks c @ [newBlock (Type blockS) want sub]) = Some bs2"
            "list_all2 blockRel bs2 (Blocks c @ [newBlock (Type blockS) want sub])"
            using overrideBlock_new [OF None] by blast
          then show ?thesis
            by (simp add: unf c1 r1 setBlocks_def contentRel_def)
        next
          case (Some bs1)
          then have c1: "c1 = setBlocks c bs1" and r1: "r1 = None"
            using assms unf by auto
          obtain bs2 where "overrideBlock (Type blockS) want sub bs1 = Some bs2"
            "list_all2 blockRel bs2 bs1"
            using overrideBlock_again [OF Some] by blast
          then show ?thesis
            by (simp add: unf c1 r1 setBlocks_def contentRel_def)
        qed
      qed
    qed
  qed
qed

lemma ApplyOverlay_again:
  assumes "ApplyOverlay ov c s = Inr (c1, d1)"
  shows "\<exists>c2 d2. ApplyOverlay ov c1 s = Inr (c2, d2) \<and> contentRel c2 c1"
proof -
  obtain r1 d where p: "PartialApplyOverlay ov c s = Inr (c1, r1, d)"
    using assms by (auto simp: ApplyOverlay_def split: sum.splits if_splits)
  obtain c2 d2 where "PartialApplyOverlay ov c1 s = Inr (c2, r1, d2)" "contentRel c2 c1"
    using PartialApplyOverlay_again [OF p] by blast
  then show ?thesis
    by (simp add: ApplyOverlay_def)
qed

lemma twice_Inl:
  "Content (applyBody b [ov]) s = Inl p \<Longrightarrow> Content (applyBody b [ov, ov]) s = Inl p"
  unfolding Content_single Content_double
  by (auto split: sum.splits prod.splits dest: ApplyOverlay_again)

lemma twice_Inr:
  assumes "Content (applyBody b [ov]) s = Inr (c1, d)"
  shows "\<exists>c2 d'. Content (applyBody b [ov, ov]) s = Inr (c2, d') \<and> contentRel c2 c1"
proof -
  obtain c0 d0 d1 where b: "Content b (schemaNoRequired s) = Inr (c0, d0)"
    and a: "ApplyOverlay ov c0 (schemaNoRequired s) = Inr (c1, d1)"
    using assms unfolding Content_single
    by (auto simp: prepareContent_def split: sum.splits prod.splits)
  obtain c2 d2 where "ApplyOverlay ov c1 (schemaNoRequired s) = Inr (c2, d2)" "contentRel c2 c1"
    using ApplyOverlay_again [OF a] by blast
  then show ?thesis
    unfolding Content_double using a b by (simp add: prepareContent_def)
qed

lemma rewrap_Inl:
  "Content (applyBody B [sub]) s = Inl p \<Longrightarrow>
     Content (applyBody (applyBody B [sub]) [sub]) s = Inl p"
  unfolding Content_single [of "applyBody B [sub]"] Content_single [of B] schemaNoRequired_idem
  by (auto split: sum.splits prod.splits simp: prepareContent_def dest: ApplyOverlay_again)

lemma rewrap_Inr:
  assumes "Content (applyBody B [sub]) s = Inr (c1, d)"
  shows "\<exists>c2 d'. Content (applyBody (applyBody B [sub]) [sub]) s = Inr (c2, d')
           \<and> contentRel c2 c1"
proof -
  obtain c0 d0 d1 where b: "Content B (schemaNoRequired s) = Inr (c0, d0)"
    and a: "ApplyOverlay sub c0 (schemaNoRequired s) = Inr (c1, d1)"
    using assms unfolding Content_single
    by (auto simp: prepareContent_def split: sum.splits prod.splits)
  obtain c2 d2 where "ApplyOverlay sub c1 (schemaNoRequired s) = Inr (c2, d2)" "contentRel c2 c1"
    using ApplyOverlay_again [OF a] by blast
  then show ?thesis
    unfolding Content_single [of "applyBody B [sub]"] Content_single [of B] schemaNoRequired_idem
    using a b by (simp add: prepareContent_def)
qed

lemma deep_step:
  assumes inl: "\<And>p. Content b1 \<lparr>schemaAttributes = attrs, schemaBlocks = map fst blocks\<rparr> = Inl p
             \<Longrightarrow> Content b2 \<lparr>schemaAttributes = attrs, schemaBlocks = map fst blocks\<rparr> = Inl p"
    and inr: "\<And>c1 d1. Content b1 \<lparr>schemaAttributes = attrs, schemaBlocks = map fst blocks\<rparr> = Inr (c1, d1)
             \<Longrightarrow> \<exists>c2 d2. Content b2 \<lparr>schemaAttributes = attrs, schemaBlocks = map fst blocks\<rparr> = Inr (c2, d2)
                   \<and> contentRel c2 c1"
    and nested: "\<And>entry x y. entry \<in> set blocks \<Longrightarrow> wrappedTwice x y
             \<Longrightarrow> deepContent x (snd entry) = deepContent y (snd entry)"
  shows "deepContent b2 (DeepSchema attrs blocks) = deepContent b1 (DeepSchema attrs blocks)"
proof (cases "Content b1 \<lparr>schemaAttributes = attrs, schemaBlocks = map fst blocks\<rparr>")
  case (Inl p)
  then show ?thesis using inl [OF Inl] by simp
next
  case (Inr r)
  obtain c1 d1 where r: "r = (c1, d1)" by (cases r)
  obtain c2 d2 where c2: "Content b2 \<lparr>schemaAttributes = attrs, schemaBlocks = map fst blocks\<rparr> = Inr (c2, d2)"
    and rel: "contentRel c2 c1"
    using inr Inr r by blast
  let ?F = "\<lambda>block. DeepBlock (blockType block) (Labels block) (DefRange block)
                           (TypeRange block) (LabelRanges block)
                           (case find (\<lambda>entry. Type (fst entry) = blockType block) blocks of
                              None \<Rightarrow> None
                            | Some entry \<Rightarrow> Some (deepContent (Body block) (snd entry)))"
  have F: "?F k2 = ?F k1" if "blockRel k2 k1" for k2 k1
  proof (cases "find (\<lambda>entry. Type (fst entry) = blockType k1) blocks")
    case None
    then show ?thesis using that by (simp add: blockRel_def)
  next
    case (Some entry)
    then have "entry \<in> set blocks" by (auto simp: find_Some_iff)
    then have "deepContent (Body k2) (snd entry) = deepContent (Body k1) (snd entry)"
      using nested that by (simp add: blockRel_def)
    then show ?thesis using that Some by (simp add: blockRel_def)
  qed
  have "list_all2 blockRel (Blocks c2) (Blocks c1)"
    using rel by (simp add: contentRel_def)
  then have "map ?F (Blocks c2) = map ?F (Blocks c1)"
    by (induction rule: list_all2_induct) (simp_all add: F)
  then show ?thesis
    using Inr r c2 rel by (simp add: contentRel_def)
qed

lemma deep_wrappedTwice:
  "wrappedTwice b2 b1 \<Longrightarrow> deepContent b2 ds = deepContent b1 ds"
proof (induction ds arbitrary: b2 b1)
  case (DeepSchema attrs blocks)
  show ?case
  proof (cases "b2 = b1")
    case True
    then show ?thesis by simp
  next
    case False
    then obtain B sub where b2: "b2 = applyBody (applyBody B [sub]) [sub]"
      and b1: "b1 = applyBody B [sub]"
      using DeepSchema.prems by (auto simp: wrappedTwice_def)
    show ?thesis
      unfolding b2 b1
    proof (rule deep_step)
      fix entry x y
      assume e: "entry \<in> set blocks" and w: "wrappedTwice x y"
      have "snd entry \<in> Basic_BNFs.snds entry"
        by (cases entry) simp
      with e show "deepContent x (snd entry) = deepContent y (snd entry)"
        using w by (rule DeepSchema.IH)
    qed (blast dest: rewrap_Inl rewrap_Inr)+
  qed
qed

section \<open>The claims\<close>

subsection \<open>A one-step overlay on a declared attribute\<close>

text \<open>
  Claim C1. For an attribute name \<open>a\<close> that the schema declares and any value \<open>v\<close>,
  the single-step overlay \<open>a=v\<close> applied by \<open>PartialApplyOverlay\<close>, and so by
  \<open>ApplyOverlay\<close>, sets attribute \<open>a\<close> of the content (replacing or inserting it) to
  the literal string \<open>v\<close> with the zero range, changes nothing else, and returns no
  leftover overlay and no diagnostics; the content decoded through the composition
  view then has \<open>a\<close> equal to \<open>v\<close>.
\<close>

theorem attribute_overlay_sets_literal:
  fixes a p v :: string
  defines "attr \<equiv> \<lparr>attrName = a, Expr = StaticExpr (StringVal v) zeroRange,
                     attrRange = zeroRange, NameRange = zeroRange\<rparr>"
    and "ov \<equiv> \<lparr>fullPath = p, steps = [a], val = v\<rparr>"
  assumes decl: "a \<in> Name ` set (schemaAttributes schema)"
  shows "PartialApplyOverlay ov content schema = Inr (setAttribute content a attr, None, [])
       \<and> ApplyOverlay ov content schema = Inr (setAttribute content a attr, [])
       \<and> Attributes (setAttribute content a attr) = (Attributes content)(a \<mapsto> attr)
       \<and> Blocks (setAttribute content a attr) = Blocks content
       \<and> exprValue (Expr attr) = Some (StringVal v)
       \<and> exprRange (Expr attr) = Some zeroRange
       \<and> (\<forall>b content0 diags.
            Content b (schemaNoRequired schema) = Inr (content0, diags) \<longrightarrow>
            (\<exists>diags'. Content (applyBody b [ov]) schema
                        = Inr (setAttribute content0 a attr, diags')))"
proof -
  have st: "steps ov = [a]" and oa: "overlayAttribute ov a = attr"
    by (simp_all add: ov_def attr_def overlayAttribute_def)
  have p: "PartialApplyOverlay ov c s = Inr (setAttribute c a attr, None, [])"
    if "a \<in> Name ` set (schemaAttributes s)" for c s
    using attribute_step [OF that st] by (simp add: oa)
  have ap: "ApplyOverlay ov c s = Inr (setAttribute c a attr, [])"
    if "a \<in> Name ` set (schemaAttributes s)" for c s
    using p [OF that] by (simp add: ApplyOverlay_def)
  have decl': "a \<in> Name ` set (schemaAttributes (schemaNoRequired schema))"
    using decl by (simp add: schemaNoRequired_names_set)
  have c: "\<exists>diags'. Content (applyBody b [ov]) schema = Inr (setAttribute content0 a attr, diags')"
    if "Content b (schemaNoRequired schema) = Inr (content0, diags)" for b content0 diags
    unfolding Content_single using that ap [OF decl'] by (simp add: prepareContent_def)
  show ?thesis
    using p [OF decl] ap [OF decl] c
    by (simp add: setAttribute_def attr_def)
qed

theorem attribute_overlay_sets_literal_witness:
  "PartialApplyOverlay \<lparr>fullPath = ''foo'', steps = [''foo''], val = ''b''\<rparr> (fooContent 0) fooSchema
     = Inr (setAttribute (fooContent 0) ''foo''
              \<lparr>attrName = ''foo'', Expr = StaticExpr (StringVal ''b'') zeroRange,
               attrRange = zeroRange, NameRange = zeroRange\<rparr>, None, [])
   \<and> Attributes (setAttribute (fooContent 0) ''foo''
              \<lparr>attrName = ''foo'', Expr = StaticExpr (StringVal ''b'') zeroRange,
               attrRange = zeroRange, NameRange = zeroRange\<rparr>) ''foo''
     = Some \<lparr>attrName = ''foo'', Expr = StaticExpr (StringVal ''b'') zeroRange,
             attrRange = zeroRange, NameRange = zeroRange\<rparr>
   \<and> Content (applyBody (parsedBody (fooContent 0))
                [\<lparr>fullPath = ''foo'', steps = [''foo''], val = ''b''\<rparr>]) fooSchema
     = Inr (setAttribute (fooContent 0) ''foo''
              \<lparr>attrName = ''foo'', Expr = StaticExpr (StringVal ''b'') zeroRange,
               attrRange = zeroRange, NameRange = zeroRange\<rparr>, [])"
proof -
  have decl: "''foo'' \<in> Name ` set (schemaAttributes fooSchema)"
    by (simp add: fooSchema_def)
  have base: "Content (parsedBody (fooContent 0)) (schemaNoRequired fooSchema)
      = Inr (fooContent 0, [])"
    by (simp add: parsedBody_def)
  have "Content (applyBody (parsedBody (fooContent 0))
                [\<lparr>fullPath = ''foo'', steps = [''foo''], val = ''b''\<rparr>]) fooSchema
     = Inr (setAttribute (fooContent 0) ''foo''
              \<lparr>attrName = ''foo'', Expr = StaticExpr (StringVal ''b'') zeroRange,
               attrRange = zeroRange, NameRange = zeroRange\<rparr>, [])"
    by (simp add: parsedBody_def fooSchema_def schemaNoRequired_def ApplyOverlay_def
        PartialApplyOverlay_def overlayAttribute_def prepareContent_def setAttribute_def)
  then show ?thesis
    using attribute_overlay_sets_literal [OF decl, of "''foo''" "''b''" "fooContent 0"]
    by simp
qed

subsection \<open>An overlay into an existing block\<close>

text \<open>
  Claim C2, amended. The first step matches a block spec when the lookup of
  \<open>PartialApplyOverlay\<close> arrives at one: no attribute spec has that name (those are
  searched first), and the spec is the first block spec of that type. When it has
  \<open>k\<close> label names, the path has at least \<open>2 + k\<close> steps, and the content has a block
  of that type whose labels are the \<open>k\<close> steps after the first, then
  \<open>PartialApplyOverlay\<close> wraps the body of the first such block with the sub-overlay
  of the remaining steps. The blocks before it and after it, also one after it with
  the same header, the attributes and the missing item range are unchanged; there
  is no leftover and no diagnostic.
\<close>

theorem existing_block_body_wrapped:
  assumes st: "steps ov = name # rest"
    and na: "name \<notin> Name ` set (schemaAttributes schema)"
    and fb: "find (\<lambda>blockS. Type blockS = name) (schemaBlocks schema) = Some blockS"
    and k: "k = length (LabelNames blockS)"
    and enough: "2 + k \<le> length (steps ov)"
    and blocks: "Blocks content = pre @ blk # post"
    and pre: "\<forall>b \<in> set pre. \<not> (blockType b = name \<and> Labels b = take k rest)"
    and blk: "blockType blk = name \<and> Labels blk = take k rest"
  shows "PartialApplyOverlay ov content schema =
           Inr (BodyContent (Attributes content)
                  (pre @
                   Block (blockType blk) (Labels blk)
                     (applyBody (Body blk)
                        [\<lparr>fullPath = fullPath ov, steps = drop k rest, val = val ov\<rparr>])
                     (DefRange blk) (TypeRange blk) (LabelRanges blk)
                   # post)
                  (contentMissingItemRange content),
                None, [])"
proof -
  have "overrideBlock name (take k rest)
          \<lparr>fullPath = fullPath ov, steps = drop k rest, val = val ov\<rparr> (Blocks content)
      = Some (pre @ setBody blk (ApplyOverlays (Body blk)
                [\<lparr>fullPath = fullPath ov, steps = drop k rest, val = val ov\<rparr>]) # post)"
    unfolding blocks using pre blk by (intro overrideBlock_first) auto
  then show ?thesis
    using block_step [OF st na fb, of content] enough
    by (simp add: k setBlocks_def setBody_def ApplyOverlays_def)
qed

theorem existing_block_body_wrapped_witness:
  "PartialApplyOverlay
     \<lparr>fullPath = ''block.b.foo'', steps = [''block'', ''b'', ''foo''], val = ''c''\<rparr>
     blockContent blockSchema
   = Inr (BodyContent Map.empty
            [labelledBlock ''a'' 1,
             Block ''block'' [''b'']
               (applyBody (parsedBody (fooContent 2))
                  [\<lparr>fullPath = ''block.b.foo'', steps = [''foo''], val = ''c''\<rparr>])
               zeroRange zeroRange [zeroRange],
             labelledBlock ''b'' 3]
            zeroRange,
          None, [])"
  using existing_block_body_wrapped
    [of "\<lparr>fullPath = ''block.b.foo'', steps = [''block'', ''b'', ''foo''], val = ''c''\<rparr>"
      "''block''" "[''b'', ''foo'']" blockSchema "\<lparr>Type = ''block'', LabelNames = [''name'']\<rparr>"
      1 blockContent "[labelledBlock ''a'' 1]" "labelledBlock ''b'' 2" "[labelledBlock ''b'' 3]"]
  by (simp add: blockSchema_def blockContent_def labelledBlock_def)

text \<open>
  Without the bound on the number of steps the statement fails. The schema has the
  block type \<open>block\<close> with one label and the content has a block labelled \<open>b\<close>; on
  the path \<open>block.b\<close> the step after the first is the label of that block, but no
  step is left for the inside of the block, and \<open>PartialApplyOverlay\<close> returns the
  content as it was, with an error: the body of the block is not wrapped.
\<close>

theorem short_path_not_wrapped_counterexample:
  "schemaAttributes blockSchema = []
   \<and> schemaBlocks blockSchema = [\<lparr>Type = ''block'', LabelNames = [''name'']\<rparr>]
   \<and> take 1 (drop 1 [''block'', ''b'']) = [''b'']
   \<and> Blocks blockContent = [labelledBlock ''a'' 1, labelledBlock ''b'' 2, labelledBlock ''b'' 3]
   \<and> blockType (labelledBlock ''b'' 2) = ''block''
   \<and> Labels (labelledBlock ''b'' 2) = [''b'']
   \<and> PartialApplyOverlay \<lparr>fullPath = ''block.b'', steps = [''block'', ''b''], val = ''x''\<rparr>
        blockContent blockSchema
     = Inr (blockContent, None,
            [\<lparr>Severity = DiagError, Summary = ''Invalid argument'',
              Detail = ''Unexpected argument '' @ [CHR 0x22] @ ''block.b'' @ [CHR 0x22] @ ''.'',
              Subject = None\<rparr>])
   \<and> Body (labelledBlock ''b'' 2) = parsedBody (fooContent 2)
   \<and> parsedBody (fooContent 2)
       \<noteq> applyBody (parsedBody (fooContent 2))
           [\<lparr>fullPath = ''block.b'', steps = [], val = ''x''\<rparr>]"
  by (simp add: PartialApplyOverlay_def blockSchema_def blockContent_def labelledBlock_def
      invalidArgError_def quoteq_def quoteChar_def parsedBody_def)

subsection \<open>An overlay into a block that does not exist\<close>

text \<open>
  Claim C3. The first step matches a block spec when the lookup of
  \<open>PartialApplyOverlay\<close> arrives at one: no attribute spec has that name (those are
  searched first), and the spec is the first block spec of that type. When it has
  \<open>k\<close> label names, the path has at least \<open>2 + k\<close> steps, and no block of the content
  has that type and the \<open>k\<close> steps after the first as labels, then
  \<open>PartialApplyOverlay\<close> appends one block to the end of the block list: its type is
  the block type, its labels are those \<open>k\<close> steps, its label ranges are \<open>k\<close> zero
  ranges, and its body is the sub-overlay of the remaining steps applied to the empty
  body. The blocks that were there keep their place, and the attributes are unchanged.
\<close>

theorem missing_block_appended:
  assumes st: "steps ov = name # rest"
    and na: "name \<notin> Name ` set (schemaAttributes schema)"
    and fb: "find (\<lambda>blockS. Type blockS = name) (schemaBlocks schema) = Some blockS"
    and k: "k = length (LabelNames blockS)"
    and enough: "2 + k \<le> length (steps ov)"
    and nomatch: "\<forall>b \<in> set (Blocks content). \<not> (blockType b = name \<and> Labels b = take k rest)"
  shows "PartialApplyOverlay ov content schema =
           Inr (BodyContent (Attributes content)
                  (Blocks content @
                   [Block name (take k rest)
                      (applyBody EmptyBody
                         [\<lparr>fullPath = fullPath ov, steps = drop k rest, val = val ov\<rparr>])
                      zeroRange zeroRange (replicate k zeroRange)])
                  (contentMissingItemRange content),
                None, [])
       \<and> length (take k rest) = k"
proof -
  have "overrideBlock name (take k rest)
          \<lparr>fullPath = fullPath ov, steps = drop k rest, val = val ov\<rparr> (Blocks content) = None"
    using nomatch by (rule overrideBlock_none)
  moreover have "length (take k rest) = k"
    using enough st by simp
  ultimately show ?thesis
    using block_step [OF st na fb, of content] enough
    by (simp add: k setBlocks_def newBlock_def ApplyOverlays_def)
qed

theorem missing_block_appended_witness:
  "PartialApplyOverlay
     \<lparr>fullPath = ''block.c.foo'', steps = [''block'', ''c'', ''foo''], val = ''x''\<rparr>
     blockContent blockSchema
   = Inr (BodyContent Map.empty
            [labelledBlock ''a'' 1, labelledBlock ''b'' 2, labelledBlock ''b'' 3,
             Block ''block'' [''c'']
               (applyBody EmptyBody
                  [\<lparr>fullPath = ''block.c.foo'', steps = [''foo''], val = ''x''\<rparr>])
               zeroRange zeroRange [zeroRange]]
            zeroRange,
          None, [])"
  using missing_block_appended
    [of "\<lparr>fullPath = ''block.c.foo'', steps = [''block'', ''c'', ''foo''], val = ''x''\<rparr>"
      "''block''" "[''c'', ''foo'']" blockSchema "\<lparr>Type = ''block'', LabelNames = [''name'']\<rparr>"
      1 blockContent]
  by (simp add: blockSchema_def blockContent_def labelledBlock_def)

subsection \<open>The last overlay wins\<close>

text \<open>
  Claim C4. The composition view folds the overlays from left to right, each on the
  content that the previous one returned: for every list of overlays, \<open>Content\<close>
  returns the content of the left fold of \<open>ApplyOverlay\<close> over the list, starting
  from the decoded base, with the diagnostics of the fold first. So for an attribute
  \<open>a\<close> that the schema declares, the sequence \<open>[a=v1, a=v2]\<close> yields the base content
  with \<open>a\<close> set to the literal \<open>v2\<close>, and \<open>[a=v2, a=v1]\<close> yields it with \<open>a\<close> set to
  \<open>v1\<close>: the last overlay wins.
\<close>

theorem last_overlay_wins:
  fixes a v1 v2 :: string
  defines "ov1 \<equiv> \<lparr>fullPath = a, steps = [a], val = v1\<rparr>"
    and "ov2 \<equiv> \<lparr>fullPath = a, steps = [a], val = v2\<rparr>"
  assumes decl: "a \<in> Name ` set (schemaAttributes schema)"
    and base: "Content b (schemaNoRequired schema) = Inr (content, diags)"
  shows "(case foldl (\<lambda>acc ov. case acc of
                        Inl p \<Rightarrow> Inl p
                      | Inr (c, ds) \<Rightarrow>
                          (case ApplyOverlay ov c (schemaNoRequired schema) of
                             Inl p \<Rightarrow> Inl p
                           | Inr (c', ms) \<Rightarrow> Inr (c', ds @ ms)))
                 (Inr (content, diags)) ovs of
            Inl p \<Rightarrow> Content (applyBody b ovs) schema = Inl p
          | Inr (c, ds) \<Rightarrow> (\<exists>ds'. Content (applyBody b ovs) schema = Inr (c, ds @ ds')))
       \<and> (\<exists>diags'. Content (applyBody b [ov1, ov2]) schema
             = Inr (setAttribute (setAttribute content a (overlayAttribute ov1 a)) a
                      (overlayAttribute ov2 a), diags'))
       \<and> (\<exists>diags'. Content (applyBody b [ov2, ov1]) schema
             = Inr (setAttribute (setAttribute content a (overlayAttribute ov2 a)) a
                      (overlayAttribute ov1 a), diags'))
       \<and> Attributes (setAttribute (setAttribute content a (overlayAttribute ov1 a)) a
                      (overlayAttribute ov2 a)) a
           = Some \<lparr>attrName = a, Expr = StaticExpr (StringVal v2) zeroRange,
                   attrRange = zeroRange, NameRange = zeroRange\<rparr>
       \<and> Attributes (setAttribute (setAttribute content a (overlayAttribute ov2 a)) a
                      (overlayAttribute ov1 a)) a
           = Some \<lparr>attrName = a, Expr = StaticExpr (StringVal v1) zeroRange,
                   attrRange = zeroRange, NameRange = zeroRange\<rparr>"
proof -
  have fold: "case foldl (\<lambda>acc ov. case acc of
                        Inl p \<Rightarrow> Inl p
                      | Inr (c, ds) \<Rightarrow>
                          (case ApplyOverlay ov c (schemaNoRequired schema) of
                             Inl p \<Rightarrow> Inl p
                           | Inr (c', ms) \<Rightarrow> Inr (c', ds @ ms)))
                 (Inr (content, diags)) ovs of
            Inl p \<Rightarrow> Content (applyBody b ovs) schema = Inl p
          | Inr (c, ds) \<Rightarrow> (\<exists>ds'. Content (applyBody b ovs) schema = Inr (c, ds @ ds'))"
    using base applyLoop_foldl [of ovs "schemaNoRequired schema" content diags]
    by (simp add: prepareContent_def prepareLoop_eq split: sum.splits prod.splits)
  have decl': "a \<in> Name ` set (schemaAttributes (schemaNoRequired schema))"
    using decl by (simp add: schemaNoRequired_names_set)
  have ap: "ApplyOverlay ov c (schemaNoRequired schema)
      = Inr (setAttribute c a (overlayAttribute ov a), [])" if "steps ov = [a]" for c ov
    using attribute_step [OF decl' that] by (simp add: ApplyOverlay_def)
  have s1: "steps ov1 = [a]" and s2: "steps ov2 = [a]"
    by (simp_all add: ov1_def ov2_def)
  have one: "\<exists>diags'. Content (applyBody b [ov1, ov2]) schema
             = Inr (setAttribute (setAttribute content a (overlayAttribute ov1 a)) a
                      (overlayAttribute ov2 a), diags')"
    using base by (simp add: ap [OF s1] ap [OF s2] prepareContent_def)
  have two: "\<exists>diags'. Content (applyBody b [ov2, ov1]) schema
             = Inr (setAttribute (setAttribute content a (overlayAttribute ov2 a)) a
                      (overlayAttribute ov1 a), diags')"
    using base by (simp add: ap [OF s1] ap [OF s2] prepareContent_def)
  have three: "Attributes (setAttribute (setAttribute content a (overlayAttribute ov1 a)) a
                      (overlayAttribute ov2 a)) a
           = Some \<lparr>attrName = a, Expr = StaticExpr (StringVal v2) zeroRange,
                   attrRange = zeroRange, NameRange = zeroRange\<rparr>"
    by (simp add: setAttribute_def overlayAttribute_def ov1_def ov2_def)
  have four: "Attributes (setAttribute (setAttribute content a (overlayAttribute ov2 a)) a
                      (overlayAttribute ov1 a)) a
           = Some \<lparr>attrName = a, Expr = StaticExpr (StringVal v1) zeroRange,
                   attrRange = zeroRange, NameRange = zeroRange\<rparr>"
    by (simp add: setAttribute_def overlayAttribute_def ov1_def ov2_def)
  from fold one two three four show ?thesis
    by (intro conjI)
qed

text \<open>
  On the document \<open>foo = "a"\<close>: \<open>[foo=1, foo=2]\<close> leaves \<open>foo\<close> at \<open>2\<close> and
  \<open>[foo=2, foo=1]\<close> at \<open>1\<close>; after \<open>[bar=x, foo=1, foo=2]\<close> the content holds \<open>bar\<close>
  from the first overlay and \<open>foo\<close> from the last.
\<close>

theorem last_overlay_wins_witness:
  "(\<exists>diags'. Content (applyBody (checkedBody (fooContent 0))
        [\<lparr>fullPath = ''foo'', steps = [''foo''], val = ''1''\<rparr>,
         \<lparr>fullPath = ''foo'', steps = [''foo''], val = ''2''\<rparr>]) fooBarBazSchema
      = Inr (BodyContent
               [''foo'' \<mapsto> \<lparr>attrName = ''foo'', Expr = StaticExpr (StringVal ''2'') zeroRange,
                                attrRange = zeroRange, NameRange = zeroRange\<rparr>] [] zeroRange,
             diags'))
   \<and> (\<exists>diags'. Content (applyBody (checkedBody (fooContent 0))
        [\<lparr>fullPath = ''foo'', steps = [''foo''], val = ''2''\<rparr>,
         \<lparr>fullPath = ''foo'', steps = [''foo''], val = ''1''\<rparr>]) fooBarBazSchema
      = Inr (BodyContent
               [''foo'' \<mapsto> \<lparr>attrName = ''foo'', Expr = StaticExpr (StringVal ''1'') zeroRange,
                                attrRange = zeroRange, NameRange = zeroRange\<rparr>] [] zeroRange,
             diags'))
   \<and> (\<exists>diags'. Content (applyBody (checkedBody (fooContent 0))
        [\<lparr>fullPath = ''bar'', steps = [''bar''], val = ''x''\<rparr>,
         \<lparr>fullPath = ''foo'', steps = [''foo''], val = ''1''\<rparr>,
         \<lparr>fullPath = ''foo'', steps = [''foo''], val = ''2''\<rparr>]) fooBarBazSchema
      = Inr (BodyContent
               [''foo'' \<mapsto> \<lparr>attrName = ''foo'', Expr = StaticExpr (StringVal ''2'') zeroRange,
                                attrRange = zeroRange, NameRange = zeroRange\<rparr>,
                ''bar'' \<mapsto> \<lparr>attrName = ''bar'', Expr = StaticExpr (StringVal ''x'') zeroRange,
                                attrRange = zeroRange, NameRange = zeroRange\<rparr>] [] zeroRange,
             diags'))"
proof -
  have decl: "''foo'' \<in> Name ` set (schemaAttributes fooBarBazSchema)"
    by (simp add: fooBarBazSchema_def)
  have base: "Content (checkedBody (fooContent 0)) (schemaNoRequired fooBarBazSchema)
      = Inr (fooContent 0, [])"
    by (simp add: checkedBody_def fooBarBazSchema_def schemaNoRequired_def)
  have ap: "ApplyOverlay \<lparr>fullPath = n, steps = [n], val = v\<rparr> c (schemaNoRequired fooBarBazSchema)
      = Inr (setAttribute c n
               \<lparr>attrName = n, Expr = StaticExpr (StringVal v) zeroRange,
                attrRange = zeroRange, NameRange = zeroRange\<rparr>, [])"
    if "n = ''foo'' \<or> n = ''bar''" for n v c
    using that
    by (auto simp: fooBarBazSchema_def schemaNoRequired_def ApplyOverlay_def
        PartialApplyOverlay_def overlayAttribute_def)
  note general = last_overlay_wins [OF decl base,
      where ?v1.0 = "''1''" and ?v2.0 = "''2''" and ovs =
        "[\<lparr>fullPath = ''bar'', steps = [''bar''], val = ''x''\<rparr>,
          \<lparr>fullPath = ''foo'', steps = [''foo''], val = ''1''\<rparr>,
          \<lparr>fullPath = ''foo'', steps = [''foo''], val = ''2''\<rparr>]"]
  have m1: "setAttribute (setAttribute (fooContent 0) ''foo'' x) ''foo'' y
      = BodyContent [''foo'' \<mapsto> y] [] zeroRange" for x y
    by (simp add: setAttribute_def fooContent_def)
  have m2: "setAttribute (setAttribute (setAttribute (fooContent 0) ''bar'' z) ''foo'' x) ''foo'' y
      = BodyContent [''foo'' \<mapsto> y, ''bar'' \<mapsto> z] [] zeroRange" for x y z
    by (auto simp: setAttribute_def fooContent_def)
  from general show ?thesis
    by (simp add: ap m1 m2 overlayAttribute_def)
qed

subsection \<open>The arguments that ExtractCLIOptions returns\<close>

text \<open>
  Claim C5. For every token sequence and schema, the second result of
  \<open>ExtractCLIOptions\<close> is the token sequence it was given, unfiltered: the tokens
  that were parsed into overlays are still in it.
\<close>

theorem extract_returns_input_args:
  "fst (snd (ExtractCLIOptions ValidIdentifier args schema)) = args"
  by (simp add: ExtractCLIOptions_def split: prod.splits)

theorem extract_returns_input_args_witness:
  "ExtractCLIOptions asciiValidIdentifier [''--foo=b'', ''config.hcl''] fooSchema
     = ([\<lparr>fullPath = ''foo'', steps = [''foo''], val = ''b''\<rparr>],
        [''--foo=b'', ''config.hcl''], [])"
proof -
  have "fst (ExtractCLIOptions asciiValidIdentifier [''--foo=b'', ''config.hcl''] fooSchema)
      = [\<lparr>fullPath = ''foo'', steps = [''foo''], val = ''b''\<rparr>]"
    and "snd (snd (ExtractCLIOptions asciiValidIdentifier [''--foo=b'', ''config.hcl''] fooSchema))
      = []"
    by (simp_all add: ExtractCLIOptions_def HasPrefix_def fooSchema_def ParseCLIArgument_def
        Let_def HasErrors_def asciiValidIdentifier_def isLetter_def isDigit_def)
  then show ?thesis
    using extract_returns_input_args [of asciiValidIdentifier "[''--foo=b'', ''config.hcl'']" fooSchema]
    by (metis prod.collapse)
qed

subsection \<open>Required attributes are checked after the overlays\<close>

text \<open>
  Claim C6. \<open>Content\<close> of the composition view decodes the base body under the
  schema with every \<open>Required\<close> flag cleared (same attribute names, same block specs),
  folds every overlay of the list over the result from left to right, by
  \<open>ApplyOverlay\<close> under that schema, with the diagnostics appended, and then appends,
  for each attribute spec of the original schema that is required and has no entry
  in the final content, one error \<open>Missing required argument\<close> whose subject is the
  missing item range of the base body.
\<close>

theorem content_required_after_overlays:
  "Content (applyBody b ovs) schema =
     (case Content b (schemaNoRequired schema) of
        Inl p \<Rightarrow> Inl p
      | Inr (content, diags) \<Rightarrow>
          (case foldl (\<lambda>acc ov. case acc of
                         Inl p \<Rightarrow> Inl p
                       | Inr (c, ds) \<Rightarrow>
                           (case ApplyOverlay ov c (schemaNoRequired schema) of
                              Inl p \<Rightarrow> Inl p
                            | Inr (c', ms) \<Rightarrow> Inr (c', ds @ ms)))
                  (Inr (content, diags)) ovs of
             Inl p \<Rightarrow> Inl p
           | Inr (content', diags') \<Rightarrow>
               Inr (content',
                    diags' @
                    map (\<lambda>attrS.
                           \<lparr>Severity = DiagError,
                            Summary = ''Missing required argument'',
                            Detail = ''The argument '' @ quoteq (Name attrS)
                              @ '' is required, but no definition was found.'',
                            Subject = Some (MissingItemRange b)\<rparr>)
                        (filter (\<lambda>attrS. Required attrS \<and> Attributes content' (Name attrS) = None)
                           (schemaAttributes schema)))))
   \<and> (\<forall>attrS \<in> set (schemaAttributes (schemaNoRequired schema)). \<not> Required attrS)
   \<and> map Name (schemaAttributes (schemaNoRequired schema)) = map Name (schemaAttributes schema)
   \<and> schemaBlocks (schemaNoRequired schema) = schemaBlocks schema
   \<and> MissingItemRange (applyBody b ovs) = MissingItemRange b"
proof -
  have A: "Content (applyBody b ovs) schema =
     (case Content b (schemaNoRequired schema) of
        Inl p \<Rightarrow> Inl p
      | Inr (content, diags) \<Rightarrow>
          (case foldl (\<lambda>acc ov. case acc of
                         Inl p \<Rightarrow> Inl p
                       | Inr (c, ds) \<Rightarrow>
                           (case ApplyOverlay ov c (schemaNoRequired schema) of
                              Inl p \<Rightarrow> Inl p
                            | Inr (c', ms) \<Rightarrow> Inr (c', ds @ ms)))
                  (Inr (content, diags)) ovs of
             Inl p \<Rightarrow> Inl p
           | Inr (content', diags') \<Rightarrow>
               Inr (content',
                    diags' @
                    map (\<lambda>attrS.
                           \<lparr>Severity = DiagError,
                            Summary = ''Missing required argument'',
                            Detail = ''The argument '' @ quoteq (Name attrS)
                              @ '' is required, but no definition was found.'',
                            Subject = Some (MissingItemRange b)\<rparr>)
                        (filter (\<lambda>attrS. Required attrS \<and> Attributes content' (Name attrS) = None)
                           (schemaAttributes schema)))))"
  proof (cases "Content b (schemaNoRequired schema)")
    case (Inl p)
    then show ?thesis by simp
  next
    case (Inr r)
    obtain c0 d0 where r: "r = (c0, d0)" by (cases r)
    show ?thesis
      using Inr r applyLoop_foldl [of ovs "schemaNoRequired schema" c0 d0]
      by (simp add: prepareContent_def prepareLoop_eq missingRequiredDiag_def
          split: sum.splits prod.splits)
  qed
  have B: "\<forall>attrS \<in> set (schemaAttributes (schemaNoRequired schema)). \<not> Required attrS"
    by (simp add: schemaNoRequired_def)
  have C: "MissingItemRange (applyBody b ovs) = MissingItemRange b"
    by simp
  from A B schemaNoRequired_names [of schema] schemaNoRequired_blocks [of schema] C
  show ?thesis
    by (intro conjI)
qed

text \<open>
  The document \<open>foo = "a"\<close> under a schema that requires \<open>foo\<close>, \<open>bar\<close> and \<open>baz\<close>.
  Decoded by itself, the document reports \<open>bar\<close> and \<open>baz\<close> missing. Under the
  overlays \<open>[qux=1, bar=b]\<close> the base reports nothing; the first overlay is rejected
  and the fold goes on; the second supplies \<open>bar\<close>; and only \<open>baz\<close> is reported
  missing, after the error of the first overlay, at the missing item range of the
  base.
\<close>

theorem content_required_after_overlays_witness:
  "Content (checkedBody (fooContent 0)) fooBarBazSchema
   = Inr (fooContent 0,
          [\<lparr>Severity = DiagError, Summary = ''Missing required argument'',
            Detail = ''The argument '' @ [CHR 0x22] @ ''bar'' @ [CHR 0x22]
              @ '' is required, but no definition was found.'',
            Subject = Some configEnd\<rparr>,
           \<lparr>Severity = DiagError, Summary = ''Missing required argument'',
            Detail = ''The argument '' @ [CHR 0x22] @ ''baz'' @ [CHR 0x22]
              @ '' is required, but no definition was found.'',
            Subject = Some configEnd\<rparr>])
   \<and> Content (applyBody (checkedBody (fooContent 0))
              [\<lparr>fullPath = ''qux'', steps = [''qux''], val = ''1''\<rparr>,
               \<lparr>fullPath = ''bar'', steps = [''bar''], val = ''b''\<rparr>])
       fooBarBazSchema
   = Inr (setAttribute (fooContent 0) ''bar''
            \<lparr>attrName = ''bar'', Expr = StaticExpr (StringVal ''b'') zeroRange,
             attrRange = zeroRange, NameRange = zeroRange\<rparr>,
          [\<lparr>Severity = DiagError, Summary = ''Invalid argument'',
            Detail = ''Unexpected argument '' @ [CHR 0x22] @ ''qux'' @ [CHR 0x22] @ ''.'',
            Subject = None\<rparr>,
           \<lparr>Severity = DiagError, Summary = ''Missing required argument'',
            Detail = ''The argument '' @ [CHR 0x22] @ ''baz'' @ [CHR 0x22]
              @ '' is required, but no definition was found.'',
            Subject = Some configEnd\<rparr>])"
proof -
  have direct: "Content (checkedBody (fooContent 0)) fooBarBazSchema
   = Inr (fooContent 0,
          [\<lparr>Severity = DiagError, Summary = ''Missing required argument'',
            Detail = ''The argument '' @ [CHR 0x22] @ ''bar'' @ [CHR 0x22]
              @ '' is required, but no definition was found.'',
            Subject = Some configEnd\<rparr>,
           \<lparr>Severity = DiagError, Summary = ''Missing required argument'',
            Detail = ''The argument '' @ [CHR 0x22] @ ''baz'' @ [CHR 0x22]
              @ '' is required, but no definition was found.'',
            Subject = Some configEnd\<rparr>])"
    by (simp add: checkedBody_def fooBarBazSchema_def fooContent_def missingRequiredDiag_def
        quoteq_def quoteChar_def)
  have base: "Content (checkedBody (fooContent 0)) (schemaNoRequired fooBarBazSchema)
      = Inr (fooContent 0, [])"
    by (simp add: checkedBody_def fooBarBazSchema_def schemaNoRequired_def)
  have rng: "MissingItemRange (checkedBody (fooContent 0)) = configEnd"
    by (simp add: checkedBody_def)
  have s1: "ApplyOverlay \<lparr>fullPath = ''qux'', steps = [''qux''], val = ''1''\<rparr> (fooContent 0)
        (schemaNoRequired fooBarBazSchema)
      = Inr (fooContent 0,
             [\<lparr>Severity = DiagError, Summary = ''Invalid argument'',
               Detail = ''Unexpected argument '' @ [CHR 0x22] @ ''qux'' @ [CHR 0x22] @ ''.'',
               Subject = None\<rparr>])"
    by (simp add: fooBarBazSchema_def schemaNoRequired_def ApplyOverlay_def
        PartialApplyOverlay_def invalidArgError_def quoteq_def quoteChar_def)
  have s2: "ApplyOverlay \<lparr>fullPath = ''bar'', steps = [''bar''], val = ''b''\<rparr> (fooContent 0)
        (schemaNoRequired fooBarBazSchema)
      = Inr (setAttribute (fooContent 0) ''bar''
               \<lparr>attrName = ''bar'', Expr = StaticExpr (StringVal ''b'') zeroRange,
                attrRange = zeroRange, NameRange = zeroRange\<rparr>, [])"
    by (simp add: fooBarBazSchema_def schemaNoRequired_def ApplyOverlay_def
        PartialApplyOverlay_def overlayAttribute_def)
  have "Content (applyBody (checkedBody (fooContent 0))
              [\<lparr>fullPath = ''qux'', steps = [''qux''], val = ''1''\<rparr>,
               \<lparr>fullPath = ''bar'', steps = [''bar''], val = ''b''\<rparr>])
       fooBarBazSchema
   = Inr (setAttribute (fooContent 0) ''bar''
            \<lparr>attrName = ''bar'', Expr = StaticExpr (StringVal ''b'') zeroRange,
             attrRange = zeroRange, NameRange = zeroRange\<rparr>,
          [\<lparr>Severity = DiagError, Summary = ''Invalid argument'',
            Detail = ''Unexpected argument '' @ [CHR 0x22] @ ''qux'' @ [CHR 0x22] @ ''.'',
            Subject = None\<rparr>,
           \<lparr>Severity = DiagError, Summary = ''Missing required argument'',
            Detail = ''The argument '' @ [CHR 0x22] @ ''baz'' @ [CHR 0x22]
              @ '' is required, but no definition was found.'',
            Subject = Some configEnd\<rparr>])"
    using content_required_after_overlays
      [of "checkedBody (fooContent 0)"
        "[\<lparr>fullPath = ''qux'', steps = [''qux''], val = ''1''\<rparr>,
          \<lparr>fullPath = ''bar'', steps = [''bar''], val = ''b''\<rparr>]" fooBarBazSchema]
    by (simp only: base rng s1 s2 foldl.simps sum.case prod.case append.simps)
       (simp add: fooBarBazSchema_def setAttribute_def fooContent_def quoteq_def quoteChar_def)
  with direct show ?thesis by simp
qed

subsection \<open>An overlay that the schema does not call for\<close>

text \<open>
  Claim C7. When the first step names neither an attribute nor a block type of the
  schema, \<open>PartialApplyOverlay\<close> returns the content unchanged, the overlay itself as
  the leftover, and no diagnostics; \<open>ApplyOverlay\<close> returns the content unchanged
  with one error, \<open>Unexpected argument\<close> followed by the quoted full path.
\<close>

theorem unmatched_overlay_is_leftover:
  assumes st: "steps ov = name # rest"
    and na: "name \<notin> Name ` set (schemaAttributes schema)"
    and nb: "name \<notin> Type ` set (schemaBlocks schema)"
  shows "PartialApplyOverlay ov content schema = Inr (content, Some ov, [])
       \<and> ApplyOverlay ov content schema =
           Inr (content,
                [\<lparr>Severity = DiagError, Summary = ''Invalid argument'',
                  Detail = ''Unexpected argument '' @ quoteq (fullPath ov) @ ''.'',
                  Subject = None\<rparr>])"
  by (simp add: PartialApplyOverlay_def ApplyOverlay_def st invalidArgError_def
      find_attr_undeclared [OF na] find_block_undeclared [OF nb])

theorem unmatched_overlay_is_leftover_witness:
  "PartialApplyOverlay \<lparr>fullPath = ''bar'', steps = [''bar''], val = ''b''\<rparr> (fooContent 0) fooSchema
     = Inr (fooContent 0, Some \<lparr>fullPath = ''bar'', steps = [''bar''], val = ''b''\<rparr>, [])
   \<and> ApplyOverlay \<lparr>fullPath = ''bar'', steps = [''bar''], val = ''b''\<rparr> (fooContent 0) fooSchema
     = Inr (fooContent 0,
            [\<lparr>Severity = DiagError, Summary = ''Invalid argument'',
              Detail = ''Unexpected argument '' @ [CHR 0x22] @ ''bar'' @ [CHR 0x22] @ ''.'',
              Subject = None\<rparr>])"
  using unmatched_overlay_is_leftover
    [of "\<lparr>fullPath = ''bar'', steps = [''bar''], val = ''b''\<rparr>" "''bar''" "[]" fooSchema
      "fooContent 0"]
  by (simp add: fooSchema_def quoteq_def quoteChar_def)

subsection \<open>Errors inside a block report the full path\<close>



subsection \<open>Applying an overlay twice\<close>

text \<open>
  Claim C9. For every overlay and every base body, the sequence of the overlay
  twice and the sequence of the overlay once decode to the same tree under every
  tree of schemas: the same attributes, and the same blocks in the same order, each
  with the same header and the same decoded content of its body. (The diagnostics
  are not part of the decoded content: a rejected overlay is reported twice.)
\<close>

theorem overlay_twice_same_decoded_content:
  "deepContent (applyBody b [ov, ov]) ds = deepContent (applyBody b [ov]) ds"
proof (cases ds)
  case (DeepSchema attrs blocks)
  show ?thesis
    unfolding DeepSchema
    by (rule deep_step) (blast dest: twice_Inl twice_Inr deep_wrappedTwice)+
qed

theorem overlay_twice_same_decoded_content_witness:
  "deepContent (applyBody (parsedBody rootContent)
      [\<lparr>fullPath = ''service.gopher.proxy.listen_addr'',
        steps = [''service'', ''gopher'', ''proxy'', ''listen_addr''], val = ''127.0.0.1:2000''\<rparr>,
       \<lparr>fullPath = ''service.gopher.proxy.listen_addr'',
        steps = [''service'', ''gopher'', ''proxy'', ''listen_addr''], val = ''127.0.0.1:2000''\<rparr>])
      rootDeepSchema
   = Inr (DeepContent [''io_mode'' \<mapsto> sourceAttribute ''io_mode'' 1]
            [DeepBlock ''service'' [''http'', ''web_proxy''] zeroRange zeroRange
               [zeroRange, zeroRange]
               (Some (Inr (DeepContent [''listen_addr'' \<mapsto> sourceAttribute ''listen_addr'' 2] []))),
             DeepBlock ''service'' [''gopher'', ''proxy''] zeroRange zeroRange
               [zeroRange, zeroRange]
               (Some (Inr (DeepContent
                  [''listen_addr'' \<mapsto>
                     \<lparr>attrName = ''listen_addr'',
                      Expr = StaticExpr (StringVal ''127.0.0.1:2000'') zeroRange,
                      attrRange = zeroRange, NameRange = zeroRange\<rparr>] [])))])"
proof -
  have "deepContent (applyBody (parsedBody rootContent)
      [\<lparr>fullPath = ''service.gopher.proxy.listen_addr'',
        steps = [''service'', ''gopher'', ''proxy'', ''listen_addr''], val = ''127.0.0.1:2000''\<rparr>])
      rootDeepSchema
   = Inr (DeepContent [''io_mode'' \<mapsto> sourceAttribute ''io_mode'' 1]
            [DeepBlock ''service'' [''http'', ''web_proxy''] zeroRange zeroRange
               [zeroRange, zeroRange]
               (Some (Inr (DeepContent [''listen_addr'' \<mapsto> sourceAttribute ''listen_addr'' 2] []))),
             DeepBlock ''service'' [''gopher'', ''proxy''] zeroRange zeroRange
               [zeroRange, zeroRange]
               (Some (Inr (DeepContent
                  [''listen_addr'' \<mapsto>
                     \<lparr>attrName = ''listen_addr'',
                      Expr = StaticExpr (StringVal ''127.0.0.1:2000'') zeroRange,
                      attrRange = zeroRange, NameRange = zeroRange\<rparr>] [])))])"
    by (simp add: rootDeepSchema_def rootSchema_def serviceSchema_def rootContent_def
        serviceContent_def parsedBody_def schemaNoRequired_def ApplyOverlay_def
        PartialApplyOverlay_def Let_def labelsMatch_def subOverlay_def newBlock_def
        ApplyOverlays_def setBlocks_def setAttribute_def overlayAttribute_def
        prepareContent_def emptyBodyDiags_def)
  then show ?thesis
    using overlay_twice_same_decoded_content
      [of "parsedBody rootContent"
        "\<lparr>fullPath = ''service.gopher.proxy.listen_addr'',
          steps = [''service'', ''gopher'', ''proxy'', ''listen_addr''], val = ''127.0.0.1:2000''\<rparr>"
        rootDeepSchema]
    by simp
qed

subsection \<open>The leftover overlay\<close>

text \<open>
  Claim C10. Whatever \<open>PartialApplyOverlay\<close> returns, its leftover overlay is either
  nil or the receiver itself, with all its steps, its full path and its value; in the
  second case the content is unchanged and there is no diagnostic. A truncated
  sub-overlay is never returned.
\<close>

theorem leftover_is_nil_or_receiver:
  assumes "PartialApplyOverlay ov content schema = Inr (content', remain, diags)"
  shows "remain = None \<or> (remain = Some ov \<and> content' = content \<and> diags = [])"
  using assms
  by (auto simp: PartialApplyOverlay_def Let_def split: list.splits option.splits if_splits)

theorem leftover_is_nil_or_receiver_witness:
  "PartialApplyOverlay \<lparr>fullPath = ''bar'', steps = [''bar''], val = ''b''\<rparr> (fooContent 0) fooSchema
     = Inr (fooContent 0, Some \<lparr>fullPath = ''bar'', steps = [''bar''], val = ''b''\<rparr>, [])
   \<and> PartialApplyOverlay \<lparr>fullPath = ''block.b.foo'', steps = [''block'', ''b'', ''foo''], val = ''c''\<rparr>
        blockContent blockSchema
     = Inr (setBlocks blockContent
              [labelledBlock ''a'' 1,
               setBody (labelledBlock ''b'' 2)
                 (applyBody (parsedBody (fooContent 2))
                    [\<lparr>fullPath = ''block.b.foo'', steps = [''foo''], val = ''c''\<rparr>]),
               labelledBlock ''b'' 3],
            None, [])"
proof -
  have h: "PartialApplyOverlay \<lparr>fullPath = ''bar'', steps = [''bar''], val = ''b''\<rparr> (fooContent 0) fooSchema
     = Inr (fooContent 0, Some \<lparr>fullPath = ''bar'', steps = [''bar''], val = ''b''\<rparr>, [])"
    by (simp add: PartialApplyOverlay_def fooSchema_def)
  have g: "PartialApplyOverlay \<lparr>fullPath = ''block.b.foo'', steps = [''block'', ''b'', ''foo''], val = ''c''\<rparr>
        blockContent blockSchema
     = Inr (setBlocks blockContent
              [labelledBlock ''a'' 1,
               setBody (labelledBlock ''b'' 2)
                 (applyBody (parsedBody (fooContent 2))
                    [\<lparr>fullPath = ''block.b.foo'', steps = [''foo''], val = ''c''\<rparr>]),
               labelledBlock ''b'' 3],
            None, [])"
    by (simp add: PartialApplyOverlay_def blockSchema_def blockContent_def labelledBlock_def
        Let_def labelsMatch_def subOverlay_def ApplyOverlays_def setBody_def)
  show ?thesis
    using h g leftover_is_nil_or_receiver [OF h] leftover_is_nil_or_receiver [OF g] by simp
qed

end
